theory Spec2Isabelle
  imports Main
begin

section \<open>Clock network appended to the routing-resource graph\<close>

text \<open>
  This part embeds \<^verbatim>\<open>append_clock_rr_graph.cpp\<close>. The classes \<^verbatim>\<open>ClockNetwork\<close>,
  \<^verbatim>\<open>DeviceGrid\<close>, \<^verbatim>\<open>RRGraphBuilder\<close>, \<^verbatim>\<open>RRGraphView\<close> and \<^verbatim>\<open>RRClockSpatialLookup\<close> are
  declared in other files: their accessors appear here as record fields, whose values are
  whatever the class returns. Identifiers (\<^verbatim>\<open>ClockTreeId\<close>, \<^verbatim>\<open>ClockLevelId\<close>,
  \<^verbatim>\<open>ClockTreePinId\<close>, \<^verbatim>\<open>RRNodeId\<close>) are natural numbers. Counts of objects held in memory
  (\<^verbatim>\<open>size_t\<close>) are natural numbers; the one \<^verbatim>\<open>size_t\<close> subtraction of the file wraps around.
\<close>

datatype t_rr_type = SOURCE | SINK | IPIN | OPIN | CHANX | CHANY

datatype Direction = INC | DEC | BIDIR | NO_DIRECTION

datatype exit_code = CMD_EXEC_SUCCESS | CMD_EXEC_FATAL_ERROR

datatype clock_error = VTR_ASSERT_num_nodes | VTR_ASSERT_src_node | Division_by_zero

text \<open>\<^verbatim>\<open>a - b\<close> on \<^verbatim>\<open>size_t\<close> (64 bits, both operands below \<open>2 ^ 64\<close>).\<close>

definition size_t_sub :: "nat \<Rightarrow> nat \<Rightarrow> nat" where
  "size_t_sub a b = (if b \<le> a then a - b else a + 2 ^ 64 - b)"

record ClockNetwork =
  trees :: "nat list"
  levels :: "nat \<Rightarrow> nat list"
  num_tracks :: "nat \<Rightarrow> nat \<Rightarrow> t_rr_type \<Rightarrow> nat"
  pins :: "nat \<Rightarrow> nat \<Rightarrow> t_rr_type \<Rightarrow> Direction \<Rightarrow> nat list"
  default_segment :: nat
  default_switch :: nat

text \<open>\<^verbatim>\<open>ClockNetwork::num_trees()\<close>: the number of trees that \<^verbatim>\<open>trees()\<close> ranges over.\<close>

definition num_trees :: "ClockNetwork \<Rightarrow> nat" where
  "num_trees clk_ntwk = length (trees clk_ntwk)"

record DeviceGrid =
  width :: nat
  height :: nat
  is_chanx_exist :: "nat \<times> nat \<Rightarrow> bool"
  is_chany_exist :: "nat \<times> nat \<Rightarrow> bool"

record rr_graph_node =
  node_x :: nat
  node_y :: nat
  node_type :: t_rr_type
  node_ptc :: nat
  node_direction :: Direction
  node_capacity :: nat
  node_cost_index :: nat

text \<open>
  Modelled from the spec: the Graph Mutator (\<^verbatim>\<open>RRGraphBuilder\<close>) is not among the translated
  files. Per the spec it is an append-only store: node creation returns the identifier of the
  new node, setters fix direction, capacity and cost index, and the node count can be read at
  any time. The graph is the list of its nodes, a node's identifier its position.
\<close>

type_synonym rr_graph = "rr_graph_node list"

definition create_node :: "rr_graph \<Rightarrow> nat \<Rightarrow> nat \<Rightarrow> t_rr_type \<Rightarrow> nat \<Rightarrow> nat \<times> rr_graph" where
  "create_node g x y chan_type ptc =
     (length g,
      g @ [\<lparr>node_x = x, node_y = y, node_type = chan_type, node_ptc = ptc,
            node_direction = NO_DIRECTION, node_capacity = 0, node_cost_index = 0\<rparr>])"

definition set_node_direction :: "rr_graph \<Rightarrow> nat \<Rightarrow> Direction \<Rightarrow> rr_graph" where
  "set_node_direction g n d = (if n < length g then g[n := (g ! n)\<lparr>node_direction := d\<rparr>] else g)"

definition set_node_capacity :: "rr_graph \<Rightarrow> nat \<Rightarrow> nat \<Rightarrow> rr_graph" where
  "set_node_capacity g n c = (if n < length g then g[n := (g ! n)\<lparr>node_capacity := c\<rparr>] else g)"

definition set_node_cost_index :: "rr_graph \<Rightarrow> nat \<Rightarrow> nat \<Rightarrow> rr_graph" where
  "set_node_cost_index g n c = (if n < length g then g[n := (g ! n)\<lparr>node_cost_index := c\<rparr>] else g)"

text \<open>\<^verbatim>\<open>node_lookup().find_channel_nodes(x, y, type)\<close>: the channel nodes of one tile.\<close>

definition find_channel_nodes :: "rr_graph \<Rightarrow> nat \<Rightarrow> nat \<Rightarrow> t_rr_type \<Rightarrow> rr_graph_node list" where
  "find_channel_nodes g x y chan_type =
     filter (\<lambda>n. node_x n = x \<and> node_y n = y \<and> node_type n = chan_type) g"

text \<open>
  Modelled from the spec: the Spatial Lookup (\<^verbatim>\<open>RRClockSpatialLookup\<close>) is a mapping from
  (x, y, tree, level, pin, direction) to a node identifier; a pure associative structure.
\<close>

type_synonym clock_key = "nat \<times> nat \<times> nat \<times> nat \<times> nat \<times> Direction"

type_synonym RRClockSpatialLookup = "clock_key \<rightharpoonup> nat"

definition add_node :: "RRClockSpatialLookup \<Rightarrow> nat \<Rightarrow> clock_key \<Rightarrow> RRClockSpatialLookup" where
  "add_node lk n k = lk(k \<mapsto> n)"

definition find_node :: "RRClockSpatialLookup \<Rightarrow> clock_key \<Rightarrow> nat option" where
  "find_node lk k = lk k"

subsection \<open>Estimating the number of clock nodes\<close>

text \<open>\<^verbatim>\<open>estimate_clock_rr_graph_num_chan_nodes\<close>: two nested loops adding \<^verbatim>\<open>num_tracks\<close>.\<close>

definition estimate_clock_rr_graph_num_chan_nodes :: "ClockNetwork \<Rightarrow> t_rr_type \<Rightarrow> nat" where
  "estimate_clock_rr_graph_num_chan_nodes clk_ntwk chan_type =
     fold (\<lambda>itree num_nodes.
             fold (\<lambda>ilvl num_nodes. num_nodes + num_tracks clk_ntwk itree ilvl chan_type)
                  (levels clk_ntwk itree) num_nodes)
          (trees clk_ntwk) 0"

text \<open>
  The tiles the loops over the grid visit without \<^verbatim>\<open>continue\<close>, in the order of the loops:
  for CHANX, \<^verbatim>\<open>iy\<close> from 0 below \<^verbatim>\<open>height() - 1\<close> and \<^verbatim>\<open>ix\<close> from 1 below \<^verbatim>\<open>width() - 1\<close>;
  for CHANY, \<^verbatim>\<open>ix\<close> from 0 below \<^verbatim>\<open>width() - 1\<close> and \<^verbatim>\<open>iy\<close> from 1 below \<^verbatim>\<open>height() - 1\<close>.
  The three functions that scan the grid share these loop headers and the same bypass test.
\<close>

definition chanx_tiles :: "DeviceGrid \<Rightarrow> bool \<Rightarrow> (nat \<times> nat) list" where
  "chanx_tiles grids through_channel =
     concat (map (\<lambda>iy. concat (map (\<lambda>ix.
        if \<not> through_channel \<and> \<not> is_chanx_exist grids (ix, iy) then [] else [(ix, iy)])
        [1 ..< size_t_sub (width grids) 1]))
        [0 ..< size_t_sub (height grids) 1])"

definition chany_tiles :: "DeviceGrid \<Rightarrow> bool \<Rightarrow> (nat \<times> nat) list" where
  "chany_tiles grids through_channel =
     concat (map (\<lambda>ix. concat (map (\<lambda>iy.
        if \<not> through_channel \<and> \<not> is_chany_exist grids (ix, iy) then [] else [(ix, iy)])
        [1 ..< size_t_sub (height grids) 1]))
        [0 ..< size_t_sub (width grids) 1])"

definition estimate_clock_rr_graph_num_nodes :: "DeviceGrid \<Rightarrow> bool \<Rightarrow> ClockNetwork \<Rightarrow> nat" where
  "estimate_clock_rr_graph_num_nodes grids through_channel clk_ntwk =
     (let num_nodes = fold (\<lambda>chanx_coord num_nodes.
                         num_nodes + estimate_clock_rr_graph_num_chan_nodes clk_ntwk CHANX)
                       (chanx_tiles grids through_channel) 0
      in fold (\<lambda>chany_coord num_nodes.
                 num_nodes + estimate_clock_rr_graph_num_chan_nodes clk_ntwk CHANY)
              (chany_tiles grids through_channel) num_nodes)"

subsection \<open>Creating the clock nodes\<close>

text \<open>
  The state of node creation: the graph, the clock lookup and \<^verbatim>\<open>curr_node_ptc\<close>.
  \<^verbatim>\<open>add_clock_node\<close> is the body of the innermost loop of
  \<^verbatim>\<open>add_rr_graph_block_clock_nodes\<close>.
\<close>

type_synonym clock_node_state = "rr_graph \<times> RRClockSpatialLookup \<times> nat"

definition add_clock_node ::
  "ClockNetwork \<Rightarrow> nat \<times> nat \<Rightarrow> t_rr_type \<Rightarrow> nat \<Rightarrow> nat \<Rightarrow> nat \<Rightarrow> Direction \<Rightarrow> nat
     \<Rightarrow> clock_node_state \<Rightarrow> clock_node_state" where
  "add_clock_node clk_ntwk chan_coord chan_type cost_index_offset itree ilvl node_dir ipin st =
     (case st of (g, lk, curr_node_ptc) \<Rightarrow>
        (case create_node g (fst chan_coord) (snd chan_coord) chan_type curr_node_ptc of
           (clk_node, g1) \<Rightarrow>
             (let g2 = set_node_direction g1 clk_node node_dir;
                  g3 = set_node_capacity g2 clk_node 1;
                  g4 = set_node_cost_index g3 clk_node (cost_index_offset + default_segment clk_ntwk);
                  lk1 = add_node lk clk_node
                          (fst chan_coord, snd chan_coord, itree, ilvl, ipin, node_dir)
              in (g4, lk1, curr_node_ptc + 1))))"

definition add_rr_graph_block_clock_nodes ::
  "rr_graph \<Rightarrow> RRClockSpatialLookup \<Rightarrow> ClockNetwork \<Rightarrow> nat \<times> nat \<Rightarrow> t_rr_type \<Rightarrow> nat
     \<Rightarrow> rr_graph \<times> RRClockSpatialLookup" where
  "add_rr_graph_block_clock_nodes g lk clk_ntwk chan_coord chan_type cost_index_offset =
     (let orig_chan_width = length (find_channel_nodes g (fst chan_coord) (snd chan_coord) chan_type);
          st = fold (\<lambda>itree.
                 fold (\<lambda>ilvl.
                   fold (\<lambda>node_dir.
                     fold (\<lambda>ipin. add_clock_node clk_ntwk chan_coord chan_type cost_index_offset
                                                  itree ilvl node_dir ipin)
                          (pins clk_ntwk itree ilvl chan_type node_dir))
                     [INC, DEC])
                   (levels clk_ntwk itree))
                 (trees clk_ntwk) (g, lk, orig_chan_width)
      in (fst st, fst (snd st)))"

text \<open>
  \<^verbatim>\<open>add_rr_graph_clock_nodes\<close>. \<^verbatim>\<open>CHANX_COST_INDEX_START\<close> is a constant of a header that is
  not translated and \<^verbatim>\<open>num_rr_segments()\<close> a query of the graph view: both are parameters.
\<close>

definition add_rr_graph_clock_nodes ::
  "nat \<Rightarrow> nat \<Rightarrow> rr_graph \<Rightarrow> RRClockSpatialLookup \<Rightarrow> DeviceGrid \<Rightarrow> bool \<Rightarrow> ClockNetwork
     \<Rightarrow> rr_graph \<times> RRClockSpatialLookup" where
  "add_rr_graph_clock_nodes CHANX_COST_INDEX_START num_rr_segments g lk grids through_channel clk_ntwk =
     (let st = fold (\<lambda>chanx_coord st.
                  add_rr_graph_block_clock_nodes (fst st) (snd st) clk_ntwk chanx_coord CHANX
                    CHANX_COST_INDEX_START)
                (chanx_tiles grids through_channel) (g, lk)
      in fold (\<lambda>chany_coord st.
                 add_rr_graph_block_clock_nodes (fst st) (snd st) clk_ntwk chany_coord CHANY
                   (CHANX_COST_INDEX_START + num_rr_segments))
              (chany_tiles grids through_channel) st)"

subsection \<open>Creating the clock edges\<close>

text \<open>
  A loop whose body may abort: the first abort ends the loop. The \<^verbatim>\<open>for\<close> loops of the
  program that contain an \<^verbatim>\<open>exit\<close> or a failing assertion are instances of it.
\<close>

fun for_each :: "'a list \<Rightarrow> ('a \<Rightarrow> 's \<Rightarrow> 'e + 's) \<Rightarrow> 's \<Rightarrow> 'e + 's" where
  "for_each [] body s = Inr s"
| "for_each (x # xs) body s =
     (case body x s of Inl e \<Rightarrow> Inl e | Inr s' \<Rightarrow> for_each xs body s')"

text \<open>\<^verbatim>\<open>find_clock_track2track_node\<close> returns the empty vector it starts with.\<close>

definition find_clock_track2track_node ::
  "nat \<times> nat \<Rightarrow> nat \<Rightarrow> nat \<Rightarrow> nat \<Rightarrow> Direction \<Rightarrow> nat list" where
  "find_clock_track2track_node chan_coord clk_tree clk_lvl clk_pin direction = []"

type_synonym rr_edge = "nat \<times> nat \<times> nat"

text \<open>
  \<^verbatim>\<open>add_rr_graph_block_clock_edges\<close>; the state is the edge list of the builder and
  \<^verbatim>\<open>num_edges_to_create\<close>. \<^verbatim>\<open>build_edges\<close> compacts the edge storage and changes no edge.
\<close>

definition add_rr_graph_block_clock_edges ::
  "RRClockSpatialLookup \<Rightarrow> ClockNetwork \<Rightarrow> nat \<times> nat \<Rightarrow> t_rr_type
     \<Rightarrow> rr_edge list \<times> nat \<Rightarrow> clock_error + rr_edge list \<times> nat" where
  "add_rr_graph_block_clock_edges clk_rr_lookup clk_ntwk chan_coord chan_type st =
     (case
        for_each (trees clk_ntwk) (\<lambda>itree.
          for_each (levels clk_ntwk itree) (\<lambda>ilvl.
            for_each [INC, DEC] (\<lambda>node_dir.
              for_each (pins clk_ntwk itree ilvl chan_type node_dir) (\<lambda>ipin (edges, edge_count).
                (case find_node clk_rr_lookup
                        (fst chan_coord, snd chan_coord, itree, ilvl, ipin, node_dir) of
                   None \<Rightarrow> Inl VTR_ASSERT_src_node
                 | Some src_node \<Rightarrow>
                     for_each (find_clock_track2track_node chan_coord itree ilvl ipin node_dir)
                       (\<lambda>des_node (edges, edge_count).
                          Inr (edges @ [(src_node, des_node, default_switch clk_ntwk)],
                               edge_count + 1))
                       (edges, edge_count))))))
          (fst st, 0)
      of Inl e \<Rightarrow> Inl e
       | Inr (edges, edge_count) \<Rightarrow> Inr (edges, snd st + edge_count))"

definition add_rr_graph_clock_edges ::
  "RRClockSpatialLookup \<Rightarrow> DeviceGrid \<Rightarrow> bool \<Rightarrow> ClockNetwork
     \<Rightarrow> rr_edge list \<times> nat \<Rightarrow> clock_error + rr_edge list \<times> nat" where
  "add_rr_graph_clock_edges clk_rr_lookup grids through_channel clk_ntwk st =
     (case for_each (chanx_tiles grids through_channel)
             (\<lambda>chanx_coord. add_rr_graph_block_clock_edges clk_rr_lookup clk_ntwk chanx_coord CHANX) st
      of Inl e \<Rightarrow> Inl e
       | Inr st1 \<Rightarrow>
           for_each (chany_tiles grids through_channel)
             (\<lambda>chany_coord. add_rr_graph_block_clock_edges clk_rr_lookup clk_ntwk chany_coord CHANY) st1)"

subsection \<open>The entry point\<close>

record DeviceContext =
  rr_graph_nodes :: rr_graph
  rr_graph_edges :: "rr_edge list"
  num_rr_segments :: nat
  grid :: DeviceGrid
  through_channel :: bool

text \<open>
  \<^verbatim>\<open>append_clock_rr_graph\<close>. The first test is \<^verbatim>\<open>if (clk_ntwk.num_trees())\<close>: it is taken
  when the number of trees is not zero. The logging macro evaluates
  \<^verbatim>\<open>num_clock_nodes / orig_num_nodes\<close> only when \<^verbatim>\<open>verbose\<close> is set.
\<close>

definition append_clock_rr_graph ::
  "nat \<Rightarrow> DeviceContext \<Rightarrow> RRClockSpatialLookup \<Rightarrow> ClockNetwork \<Rightarrow> bool
     \<Rightarrow> clock_error + exit_code \<times> DeviceContext \<times> RRClockSpatialLookup" where
  "append_clock_rr_graph CHANX_COST_INDEX_START vpr_device_ctx clk_rr_lookup clk_ntwk verbose =
     (if num_trees clk_ntwk \<noteq> 0 then Inr (CMD_EXEC_SUCCESS, vpr_device_ctx, clk_rr_lookup)
      else if num_trees clk_ntwk > 1 then Inr (CMD_EXEC_FATAL_ERROR, vpr_device_ctx, clk_rr_lookup)
      else
        (let orig_num_nodes = length (rr_graph_nodes vpr_device_ctx);
             num_clock_nodes = estimate_clock_rr_graph_num_nodes (grid vpr_device_ctx)
                                 (through_channel vpr_device_ctx) clk_ntwk
         in (case add_rr_graph_clock_nodes CHANX_COST_INDEX_START (num_rr_segments vpr_device_ctx)
                    (rr_graph_nodes vpr_device_ctx) clk_rr_lookup (grid vpr_device_ctx)
                    (through_channel vpr_device_ctx) clk_ntwk of
               (g, lk) \<Rightarrow>
                 if num_clock_nodes + orig_num_nodes \<noteq> length g then Inl VTR_ASSERT_num_nodes
                 else
                   (case add_rr_graph_clock_edges lk (grid vpr_device_ctx)
                           (through_channel vpr_device_ctx) clk_ntwk
                           (rr_graph_edges vpr_device_ctx, 0) of
                      Inl e \<Rightarrow> Inl e
                    | Inr (edges, num_clock_edges) \<Rightarrow>
                        if verbose \<and> orig_num_nodes = 0 then Inl Division_by_zero
                        else Inr (CMD_EXEC_SUCCESS,
                                  vpr_device_ctx\<lparr>rr_graph_nodes := g, rr_graph_edges := edges\<rparr>,
                                  lk)))))"

subsection \<open>Example inputs\<close>

text \<open>A grid of 3 by 3 tiles in which every channel exists.\<close>

definition grid_3x3 :: DeviceGrid where
  "grid_3x3 = \<lparr>width = 3, height = 3, is_chanx_exist = (\<lambda>c. True), is_chany_exist = (\<lambda>c. True)\<rparr>"

text \<open>A clock network with \<open>n\<close> trees of one level: one CHANX pin in each direction.\<close>

definition clk_trees :: "nat \<Rightarrow> ClockNetwork" where
  "clk_trees n =
     \<lparr>trees = [0 ..< n],
      levels = (\<lambda>itree. [0]),
      num_tracks = (\<lambda>itree ilvl chan_type. if chan_type = CHANX then 2 else 0),
      pins = (\<lambda>itree ilvl chan_type node_dir. if chan_type = CHANX then [0] else []),
      default_segment = 0, default_switch = 0\<rparr>"

text \<open>A device holding two pre-existing CHANX tracks at tile (1, 0).\<close>

definition chanx_track :: "nat \<Rightarrow> rr_graph_node" where
  "chanx_track ptc =
     \<lparr>node_x = 1, node_y = 0, node_type = CHANX, node_ptc = ptc, node_direction = INC,
      node_capacity = 1, node_cost_index = 4\<rparr>"

definition device_3x3 :: DeviceContext where
  "device_3x3 =
     \<lparr>rr_graph_nodes = [chanx_track 0, chanx_track 1], rr_graph_edges = [], num_rr_segments = 1,
      grid = grid_3x3, through_channel = False\<rparr>"

subsection \<open>Notions used to state the properties\<close>




section \<open>Switch blocks: interconnects and configuration bits\<close>

text \<open>
  This part embeds the switch-block functions of \<^verbatim>\<open>verilog_routing.c\<close>: the functions that
  count configuration bits, the functions that emit the interconnect of a block, and the part
  of \<^verbatim>\<open>print_verilog_routing_resources\<close> that allocates configuration addresses.

  The netlist text is represented by the kinds of interconnect written to the file, in
  order; port names and their lookups belong to text emission and are left out. Counts of
  configuration bits are natural numbers, the counters and addresses are \<^verbatim>\<open>int\<close> as in the
  source (signed overflow is outside the model). An \<^verbatim>\<open>exit(1)\<close> and a failed assertion are
  errors; so is a read outside an array, which the source leaves undefined.
\<close>

datatype PORTS = IN_PORT | OUT_PORT | INOUT_PORT

datatype e_sram_orgz = SPICE_SRAM_STANDALONE | SPICE_SRAM_SCAN_CHAIN | SPICE_SRAM_MEMORY_BANK

datatype e_spice_model_type = SPICE_MODEL_MUX | SPICE_MODEL_other

datatype e_spice_model_design_tech =
  SPICE_MODEL_DESIGN_CMOS | SPICE_MODEL_DESIGN_RRAM | SPICE_MODEL_DESIGN_other

datatype x2p_error =
    Exit_invalid_direction
  | Exit_invalid_rr_node_type
  | Exit_invalid_design_tech
  | Assert_switch_idx
  | Assert_spice_model_mux
  | Assert_chan_rr_node_type
  | Assert_sb_coordinate
  | Assert_exist_opposite_side
  | Assert_fan_in
  | Assert_esti_sram_cnt
  | Assert_mirror_num_conf_bits
  | Assert_memory_bank
  | Array_out_of_bounds

datatype interc = Self_loop | Short_connection | Multiplexer

record t_spice_model =
  spice_model_type :: e_spice_model_type
  design_tech :: e_spice_model_design_tech

text \<open>
  \<^verbatim>\<open>t_rr_node\<close>: the fields the translated functions read. A driver is represented by its
  node type, the one attribute of a driver they branch on; \<^verbatim>\<open>num_drive_rr_nodes\<close> is the
  length of \<^verbatim>\<open>drive_rr_nodes\<close>.
\<close>

record t_rr_node =
  rr_type :: t_rr_type
  drive_rr_nodes :: "t_rr_type list"
  drive_switches :: "int list"

text \<open>
  Modelled from the spec: \<^verbatim>\<open>t_sram_orgz_info\<close> and its accessors are declared in files that
  are not translated. Per the spec the configuration counter state is "total configuration
  bits allocated so far, total bit-line count, total word-line count", it "may be snapshotted
  and later restored bit-for-bit", and snapshot and restore are "pure value-copy operations".
  The memory organisation type is the field \<^verbatim>\<open>type\<close> that the source reads.
\<close>

record t_sram_orgz_info =
  orgz_type :: e_sram_orgz
  num_mem_bit :: int
  num_bl :: int
  num_wl :: int

definition get_sram_orgz_info_num_mem_bit :: "t_sram_orgz_info \<Rightarrow> int" where
  "get_sram_orgz_info_num_mem_bit cur_sram_orgz_info = num_mem_bit cur_sram_orgz_info"

definition update_sram_orgz_info_num_mem_bit :: "t_sram_orgz_info \<Rightarrow> int \<Rightarrow> t_sram_orgz_info" where
  "update_sram_orgz_info_num_mem_bit cur_sram_orgz_info n = cur_sram_orgz_info\<lparr>num_mem_bit := n\<rparr>"

definition get_sram_orgz_info_num_blwl :: "t_sram_orgz_info \<Rightarrow> int \<times> int" where
  "get_sram_orgz_info_num_blwl cur_sram_orgz_info = (num_bl cur_sram_orgz_info, num_wl cur_sram_orgz_info)"

definition update_sram_orgz_info_num_blwl :: "t_sram_orgz_info \<Rightarrow> int \<Rightarrow> int \<Rightarrow> t_sram_orgz_info" where
  "update_sram_orgz_info_num_blwl cur_sram_orgz_info bl wl = cur_sram_orgz_info\<lparr>num_bl := bl, num_wl := wl\<rparr>"

definition snapshot_sram_orgz_info :: "t_sram_orgz_info \<Rightarrow> t_sram_orgz_info" where
  "snapshot_sram_orgz_info src_sram_orgz_info = src_sram_orgz_info"

definition copy_sram_orgz_info :: "t_sram_orgz_info \<Rightarrow> t_sram_orgz_info \<Rightarrow> t_sram_orgz_info" where
  "copy_sram_orgz_info des_sram_orgz_info src_sram_orgz_info = src_sram_orgz_info"

text \<open>
  The globals the functions read: the grid size \<^verbatim>\<open>nx\<close>, \<^verbatim>\<open>ny\<close>, the array \<^verbatim>\<open>switch_inf\<close>
  (each entry stands for its \<^verbatim>\<open>spice_model\<close>), and the two bit-cost functions of the
  multiplexer decoder, which are defined in another file and are parameters here.
\<close>

record x2p_globals =
  nx :: int
  ny :: int
  switch_inf :: "t_spice_model list"
  count_num_conf_bits_one_spice_model :: "t_spice_model \<Rightarrow> e_sram_orgz \<Rightarrow> nat \<Rightarrow> nat"
  count_num_reserved_conf_bits_one_spice_model :: "t_spice_model \<Rightarrow> e_sram_orgz \<Rightarrow> nat \<Rightarrow> nat"

text \<open>
  Modelled from the spec: the macro \<^verbatim>\<open>DEFAULT_SWITCH_ID\<close> is defined in a header that is not
  translated. The single-driver case reads \<^verbatim>\<open>drive_rr_nodes[DEFAULT_SWITCH_ID]\<close> of a list
  of one driver, the output being "wired directly to exactly one" driver: the index is 0.
\<close>

definition DEFAULT_SWITCH_ID :: nat where
  "DEFAULT_SWITCH_ID = 0"

definition drive_switch :: "t_rr_node \<Rightarrow> nat \<Rightarrow> x2p_error + int" where
  "drive_switch cur_rr_node i =
     (if i < length (drive_switches cur_rr_node) then Inr (drive_switches cur_rr_node ! i)
      else Inl Array_out_of_bounds)"

definition switch_spice_model :: "x2p_globals \<Rightarrow> int \<Rightarrow> x2p_error + t_spice_model" where
  "switch_spice_model env switch_idx =
     (if 0 \<le> switch_idx \<and> nat switch_idx < length (switch_inf env)
      then Inr (switch_inf env ! nat switch_idx) else Inl Array_out_of_bounds)"

subsection \<open>Blocks\<close>

text \<open>
  \<^verbatim>\<open>RRGSB\<close>, the block abstraction of the reduced-duplication backend, is a class declared in
  another file. A block is its coordinate and, per side, its channel tracks; a track holds
  what the accessors return for it: the node, its direction, its segment id, and the values
  of the two queries \<^verbatim>\<open>is_sb_node_exist_opposite_side(node, side)\<close> and
  \<^verbatim>\<open>is_sb_node_passing_wire(side, track)\<close>. For a connection block of a channel type the
  block gives, per input-pin side, its input-pin nodes.
\<close>

record chan_track =
  chan_node :: t_rr_node
  chan_node_direction :: PORTS
  chan_node_segment :: nat
  is_sb_node_exist_opposite_side :: bool
  is_sb_node_passing_wire :: bool

record RRGSB =
  sb_x :: nat
  sb_y :: nat
  chan_sides :: "chan_track list list"
  cb_ipin_nodes :: "t_rr_type \<Rightarrow> t_rr_node list list"

text \<open>
  Modelled from the spec: \<^verbatim>\<open>RRChan::get_segment_ids\<close> is not translated. The spec counts a
  block "by summing, over every output-direction channel node", and the source visits, per
  segment id of this list, the tracks of that segment: the list holds each segment id of the
  side's tracks once.
\<close>

definition get_segment_ids :: "chan_track list \<Rightarrow> nat list" where
  "get_segment_ids tracks = remdups (map chan_node_segment tracks)"

text \<open>
  \<^verbatim>\<open>t_sb\<close>, the block structure of the backend without deduplication. A track holds the
  node, its direction, and the values of \<^verbatim>\<open>is_rr_node_exist_opposite_side_in_sb_info\<close> and
  \<^verbatim>\<open>check_drive_rr_node_imply_short\<close> for it, two functions of another file.
\<close>

record sb_track =
  sb_chan_rr_node :: t_rr_node
  sb_chan_rr_node_direction :: PORTS
  is_rr_node_exist_opposite_side_in_sb_info :: bool
  check_drive_rr_node_imply_short :: bool

datatype t_sb = T_sb
  (sb_info_x: int) (sb_info_y: int)
  (chan_rr_node: "sb_track list list")
  (mirror: "t_sb option")
  (sb_num_reserved_conf_bits: int) (sb_conf_bits_lsb: int) (sb_conf_bits_msb: int)

subsection \<open>Counting the bits of one interconnect\<close>

text \<open>
  The four functions that count the bits of one node end in the same lines ("fan_in >= 2
  implies a MUX and requires configuration bits"); \<open>cost\<close> is the bit-cost function called.
\<close>

definition count_interc_bits ::
  "(t_spice_model \<Rightarrow> e_sram_orgz \<Rightarrow> nat \<Rightarrow> nat) \<Rightarrow> x2p_globals \<Rightarrow> t_sram_orgz_info \<Rightarrow> t_rr_node \<Rightarrow> nat
     \<Rightarrow> x2p_error + nat" where
  "count_interc_bits cost env cur_sram_orgz_info cur_rr_node num_drive_rr_nodes =
     (if 2 > num_drive_rr_nodes then Inr 0
      else
        (case drive_switch cur_rr_node 0 of
           Inl e \<Rightarrow> Inl e
         | Inr switch_idx \<Rightarrow>
             if \<not> (-1 < switch_idx) then Inl Assert_switch_idx
             else
               (case switch_spice_model env switch_idx of
                  Inl e \<Rightarrow> Inl e
                | Inr spice_model \<Rightarrow>
                    if spice_model_type spice_model \<noteq> SPICE_MODEL_MUX then Inl Assert_spice_model_mux
                    else Inr (cost spice_model (orgz_type cur_sram_orgz_info) num_drive_rr_nodes))))"

text \<open>
  The value of \<^verbatim>\<open>num_drive_rr_nodes\<close> that the counting functions for \<^verbatim>\<open>RRGSB\<close> compute
  first ("Determine if the interc lies inside a channel wire"): the fan-in they count with.
\<close>

definition counted_num_drive_rr_nodes :: "chan_track \<Rightarrow> nat" where
  "counted_num_drive_rr_nodes t =
     (if is_sb_node_exist_opposite_side t then 0 else length (drive_rr_nodes (chan_node t)))"

definition count_verilog_switch_box_interc_conf_bits ::
  "x2p_globals \<Rightarrow> t_sram_orgz_info \<Rightarrow> chan_track \<Rightarrow> x2p_error + nat" where
  "count_verilog_switch_box_interc_conf_bits env cur_sram_orgz_info t =
     (let num_drive_rr_nodes = counted_num_drive_rr_nodes t
      in count_interc_bits (count_num_conf_bits_one_spice_model env) env cur_sram_orgz_info
           (chan_node t) num_drive_rr_nodes)"

definition count_verilog_switch_box_interc_reserved_conf_bits ::
  "x2p_globals \<Rightarrow> t_sram_orgz_info \<Rightarrow> chan_track \<Rightarrow> x2p_error + nat" where
  "count_verilog_switch_box_interc_reserved_conf_bits env cur_sram_orgz_info t =
     (let num_drive_rr_nodes = counted_num_drive_rr_nodes t
      in count_interc_bits (count_num_reserved_conf_bits_one_spice_model env) env cur_sram_orgz_info
           (chan_node t) num_drive_rr_nodes)"

text \<open>The overloads for \<^verbatim>\<open>t_sb\<close>.\<close>

definition count_verilog_switch_box_interc_conf_bits_t_sb ::
  "x2p_globals \<Rightarrow> t_sram_orgz_info \<Rightarrow> sb_track \<Rightarrow> x2p_error + nat" where
  "count_verilog_switch_box_interc_conf_bits_t_sb env cur_sram_orgz_info t =
     (let num_drive_rr_nodes =
            (if is_rr_node_exist_opposite_side_in_sb_info t then 0
             else length (drive_rr_nodes (sb_chan_rr_node t)))
      in count_interc_bits (count_num_conf_bits_one_spice_model env) env cur_sram_orgz_info
           (sb_chan_rr_node t) num_drive_rr_nodes)"

definition count_verilog_switch_box_interc_reserved_conf_bits_t_sb ::
  "x2p_globals \<Rightarrow> t_sram_orgz_info \<Rightarrow> sb_track \<Rightarrow> x2p_error + nat" where
  "count_verilog_switch_box_interc_reserved_conf_bits_t_sb env cur_sram_orgz_info t =
     (let num_drive_rr_nodes =
            (if is_rr_node_exist_opposite_side_in_sb_info t then 0
             else length (drive_rr_nodes (sb_chan_rr_node t)))
      in count_interc_bits (count_num_reserved_conf_bits_one_spice_model env) env cur_sram_orgz_info
           (sb_chan_rr_node t) num_drive_rr_nodes)"

subsection \<open>Counting the bits of a block\<close>

definition count_verilog_switch_box_side_conf_bits ::
  "x2p_globals \<Rightarrow> t_sram_orgz_info \<Rightarrow> chan_track list \<Rightarrow> nat \<Rightarrow> x2p_error + nat" where
  "count_verilog_switch_box_side_conf_bits env cur_sram_orgz_info side seg_id =
     for_each side (\<lambda>t num_conf_bits.
        if seg_id \<noteq> chan_node_segment t then Inr num_conf_bits
        else
          (case chan_node_direction t of
             OUT_PORT \<Rightarrow>
               (case count_verilog_switch_box_interc_conf_bits env cur_sram_orgz_info t of
                  Inl e \<Rightarrow> Inl e
                | Inr n \<Rightarrow> Inr (num_conf_bits + n))
           | IN_PORT \<Rightarrow> Inr num_conf_bits
           | INOUT_PORT \<Rightarrow> Inl Exit_invalid_direction))
       0"

definition count_verilog_switch_box_conf_bits ::
  "x2p_globals \<Rightarrow> t_sram_orgz_info \<Rightarrow> RRGSB \<Rightarrow> x2p_error + nat" where
  "count_verilog_switch_box_conf_bits env cur_sram_orgz_info rr_sb =
     for_each (chan_sides rr_sb) (\<lambda>side.
        for_each (get_segment_ids side) (\<lambda>seg_id num_conf_bits.
           (case count_verilog_switch_box_side_conf_bits env cur_sram_orgz_info side seg_id of
              Inl e \<Rightarrow> Inl e
            | Inr n \<Rightarrow> Inr (num_conf_bits + n))))
       0"

definition count_verilog_switch_box_side_reserved_conf_bits ::
  "x2p_globals \<Rightarrow> t_sram_orgz_info \<Rightarrow> chan_track list \<Rightarrow> nat \<Rightarrow> x2p_error + nat" where
  "count_verilog_switch_box_side_reserved_conf_bits env cur_sram_orgz_info side seg_id =
     for_each side (\<lambda>t num_reserved_conf_bits.
        if seg_id \<noteq> chan_node_segment t then Inr num_reserved_conf_bits
        else
          (case chan_node_direction t of
             OUT_PORT \<Rightarrow>
               (case count_verilog_switch_box_interc_reserved_conf_bits env cur_sram_orgz_info t of
                  Inl e \<Rightarrow> Inl e
                | Inr temp_num_reserved_conf_bits \<Rightarrow>
                    Inr (max num_reserved_conf_bits temp_num_reserved_conf_bits))
           | IN_PORT \<Rightarrow> Inr num_reserved_conf_bits
           | INOUT_PORT \<Rightarrow> Inl Exit_invalid_direction))
       0"

definition count_verilog_switch_box_reserved_conf_bits ::
  "x2p_globals \<Rightarrow> t_sram_orgz_info \<Rightarrow> RRGSB \<Rightarrow> x2p_error + nat" where
  "count_verilog_switch_box_reserved_conf_bits env cur_sram_orgz_info rr_sb =
     for_each (chan_sides rr_sb) (\<lambda>side.
        for_each (get_segment_ids side) (\<lambda>seg_id num_reserved_conf_bits.
           (case count_verilog_switch_box_side_reserved_conf_bits env cur_sram_orgz_info side seg_id of
              Inl e \<Rightarrow> Inl e
            | Inr temp_num_reserved_conf_bits \<Rightarrow>
                Inr (max num_reserved_conf_bits temp_num_reserved_conf_bits))))
       0"

text \<open>The overloads for \<^verbatim>\<open>t_sb\<close>: two nested loops over sides and tracks.\<close>

definition count_verilog_switch_box_conf_bits_t_sb ::
  "x2p_globals \<Rightarrow> t_sram_orgz_info \<Rightarrow> t_sb \<Rightarrow> x2p_error + nat" where
  "count_verilog_switch_box_conf_bits_t_sb env cur_sram_orgz_info cur_sb_info =
     for_each (chan_rr_node cur_sb_info) (\<lambda>side.
        for_each side (\<lambda>t num_conf_bits.
          (case sb_chan_rr_node_direction t of
             OUT_PORT \<Rightarrow>
               (case count_verilog_switch_box_interc_conf_bits_t_sb env cur_sram_orgz_info t of
                  Inl e \<Rightarrow> Inl e
                | Inr n \<Rightarrow> Inr (num_conf_bits + n))
           | IN_PORT \<Rightarrow> Inr num_conf_bits
           | INOUT_PORT \<Rightarrow> Inl Exit_invalid_direction)))
       0"

definition count_verilog_switch_box_reserved_conf_bits_t_sb ::
  "x2p_globals \<Rightarrow> t_sram_orgz_info \<Rightarrow> t_sb \<Rightarrow> x2p_error + nat" where
  "count_verilog_switch_box_reserved_conf_bits_t_sb env cur_sram_orgz_info cur_sb_info =
     for_each (chan_rr_node cur_sb_info) (\<lambda>side.
        for_each side (\<lambda>t num_reserved_conf_bits.
          (case sb_chan_rr_node_direction t of
             OUT_PORT \<Rightarrow>
               (case count_verilog_switch_box_interc_reserved_conf_bits_t_sb env cur_sram_orgz_info t of
                  Inl e \<Rightarrow> Inl e
                | Inr temp_num_reserved_conf_bits \<Rightarrow>
                    Inr (if temp_num_reserved_conf_bits > num_reserved_conf_bits
                         then temp_num_reserved_conf_bits else num_reserved_conf_bits))
           | IN_PORT \<Rightarrow> Inr num_reserved_conf_bits
           | INOUT_PORT \<Rightarrow> Inl Exit_invalid_direction)))
       0"

subsection \<open>Emitting one interconnect\<close>

text \<open>
  The state of emission is the configuration counter and the file written so far.
  \<^verbatim>\<open>dump_verilog_unique_switch_box_short_interc\<close>: the driver is the node itself when the
  actual fan-in is 0.
\<close>

type_synonym emit_state = "t_sram_orgz_info \<times> interc list"

definition dump_verilog_unique_switch_box_short_interc ::
  "interc list \<Rightarrow> t_rr_node \<Rightarrow> nat \<Rightarrow> t_rr_type \<Rightarrow> x2p_error + interc list" where
  "dump_verilog_unique_switch_box_short_interc fp cur_rr_node actual_fan_in drive_rr_node_type =
     (if \<not> (0 = actual_fan_in \<or> 1 = actual_fan_in) then Inl Assert_fan_in
      else
        (case drive_rr_node_type of
           OPIN \<Rightarrow> Inr (fp @ [if 0 = actual_fan_in then Self_loop else Short_connection])
         | CHANX \<Rightarrow> Inr (fp @ [if 0 = actual_fan_in then Self_loop else Short_connection])
         | CHANY \<Rightarrow> Inr (fp @ [if 0 = actual_fan_in then Self_loop else Short_connection])
         | _ \<Rightarrow> Inl Exit_invalid_rr_node_type))"

text \<open>
  The part that \<^verbatim>\<open>dump_verilog_unique_switch_box_mux\<close> and \<^verbatim>\<open>dump_verilog_switch_box_mux\<close>
  share from "Get verilog model" on: the driver types are checked, the bits of the multiplexer
  are counted, the design technology is checked, and the counter is advanced.
\<close>

definition dump_mux_body ::
  "x2p_globals \<Rightarrow> emit_state \<Rightarrow> nat \<Rightarrow> t_rr_type list \<Rightarrow> int \<Rightarrow> x2p_error + emit_state" where
  "dump_mux_body env st mux_size drivers switch_index =
     (case st of (cur_sram_orgz_info, fp) \<Rightarrow>
        (case switch_spice_model env switch_index of
           Inl e \<Rightarrow> Inl e
         | Inr verilog_model \<Rightarrow>
             (case for_each (take mux_size drivers) (\<lambda>drive_type input_cnt.
                      (case drive_type of
                         OPIN \<Rightarrow> Inr (input_cnt + 1)
                       | CHANX \<Rightarrow> Inr (input_cnt + 1)
                       | CHANY \<Rightarrow> Inr (input_cnt + 1)
                       | _ \<Rightarrow> Inl Exit_invalid_rr_node_type)) (0 :: nat) of
                Inl e \<Rightarrow> Inl e
              | Inr input_cnt \<Rightarrow>
                  (let cur_num_sram = get_sram_orgz_info_num_mem_bit cur_sram_orgz_info;
                       cur_bl = fst (get_sram_orgz_info_num_blwl cur_sram_orgz_info);
                       cur_wl = snd (get_sram_orgz_info_num_blwl cur_sram_orgz_info);
                       num_mux_conf_bits = int (count_num_conf_bits_one_spice_model env verilog_model
                                                  (orgz_type cur_sram_orgz_info) mux_size)
                   in (case design_tech verilog_model of
                         SPICE_MODEL_DESIGN_CMOS \<Rightarrow>
                           Inr (update_sram_orgz_info_num_mem_bit cur_sram_orgz_info
                                  (cur_num_sram + num_mux_conf_bits),
                                fp @ [Multiplexer])
                       | SPICE_MODEL_DESIGN_RRAM \<Rightarrow>
                           Inr (update_sram_orgz_info_num_blwl
                                  (update_sram_orgz_info_num_mem_bit cur_sram_orgz_info
                                     (cur_num_sram + num_mux_conf_bits))
                                  (cur_bl + num_mux_conf_bits) (cur_wl + num_mux_conf_bits),
                                fp @ [Multiplexer])
                       | SPICE_MODEL_DESIGN_other \<Rightarrow> Inl Exit_invalid_design_tech)))))"

definition dump_verilog_unique_switch_box_mux ::
  "x2p_globals \<Rightarrow> emit_state \<Rightarrow> t_rr_node \<Rightarrow> nat \<Rightarrow> t_rr_type list \<Rightarrow> int \<Rightarrow> x2p_error + emit_state" where
  "dump_verilog_unique_switch_box_mux env st cur_rr_node mux_size drivers switch_index =
     (if \<not> (CHANX = rr_type cur_rr_node \<or> CHANY = rr_type cur_rr_node) then Inl Assert_chan_rr_node_type
      else if \<not> (2 = mux_size \<or> 2 < mux_size) then Inl Assert_fan_in
      else dump_mux_body env st mux_size drivers switch_index)"

definition dump_verilog_unique_switch_box_interc ::
  "x2p_globals \<Rightarrow> emit_state \<Rightarrow> chan_track \<Rightarrow> x2p_error + emit_state" where
  "dump_verilog_unique_switch_box_interc env st t =
     (let cur_rr_node = chan_node t in
      if \<not> is_sb_node_passing_wire t \<and> length (drive_rr_nodes cur_rr_node) = 0 then Inr st
      else
        (let num_drive_rr_nodes =
               (if is_sb_node_passing_wire t then 0 else length (drive_rr_nodes cur_rr_node))
         in if 0 = num_drive_rr_nodes then
              (case dump_verilog_unique_switch_box_short_interc (snd st) cur_rr_node
                      num_drive_rr_nodes (rr_type cur_rr_node) of
                 Inl e \<Rightarrow> Inl e | Inr fp \<Rightarrow> Inr (fst st, fp))
            else if 1 = num_drive_rr_nodes then
              (case dump_verilog_unique_switch_box_short_interc (snd st) cur_rr_node
                      num_drive_rr_nodes (drive_rr_nodes cur_rr_node ! DEFAULT_SWITCH_ID) of
                 Inl e \<Rightarrow> Inl e | Inr fp \<Rightarrow> Inr (fst st, fp))
            else if 1 < num_drive_rr_nodes then
              (case drive_switch cur_rr_node DEFAULT_SWITCH_ID of
                 Inl e \<Rightarrow> Inl e
               | Inr switch_index \<Rightarrow>
                   dump_verilog_unique_switch_box_mux env st cur_rr_node num_drive_rr_nodes
                     (drive_rr_nodes cur_rr_node) switch_index)
            else Inr st))"

text \<open>
  The backend without deduplication. Every function first asserts that the coordinate of the
  block lies in the grid.
\<close>

definition sb_coordinate_ok :: "x2p_globals \<Rightarrow> t_sb \<Rightarrow> bool" where
  "sb_coordinate_ok env cur_sb_info =
     ((\<not> (0 > sb_info_x cur_sb_info)) \<and> (\<not> (sb_info_x cur_sb_info > nx env + 1)) \<and>
      (\<not> (0 > sb_info_y cur_sb_info)) \<and> (\<not> (sb_info_y cur_sb_info > ny env + 1)))"

definition dump_verilog_switch_box_short_interc ::
  "x2p_globals \<Rightarrow> interc list \<Rightarrow> t_sb \<Rightarrow> t_rr_node \<Rightarrow> nat \<Rightarrow> t_rr_type \<Rightarrow> x2p_error + interc list" where
  "dump_verilog_switch_box_short_interc env fp cur_sb_info cur_rr_node actual_fan_in drive_rr_node_type =
     (if \<not> sb_coordinate_ok env cur_sb_info then Inl Assert_sb_coordinate
      else if \<not> (0 = actual_fan_in \<or> 1 = actual_fan_in) then Inl Assert_fan_in
      else
        (case drive_rr_node_type of
           OPIN \<Rightarrow> Inr (fp @ [if 0 = actual_fan_in then Self_loop else Short_connection])
         | CHANX \<Rightarrow> Inr (fp @ [if 0 = actual_fan_in then Self_loop else Short_connection])
         | CHANY \<Rightarrow> Inr (fp @ [if 0 = actual_fan_in then Self_loop else Short_connection])
         | _ \<Rightarrow> Inl Exit_invalid_rr_node_type))"

definition dump_verilog_switch_box_mux ::
  "x2p_globals \<Rightarrow> emit_state \<Rightarrow> t_sb \<Rightarrow> t_rr_node \<Rightarrow> nat \<Rightarrow> t_rr_type list \<Rightarrow> int
     \<Rightarrow> x2p_error + emit_state" where
  "dump_verilog_switch_box_mux env st cur_sb_info cur_rr_node mux_size drivers switch_index =
     (if \<not> sb_coordinate_ok env cur_sb_info then Inl Assert_sb_coordinate
      else if \<not> (CHANX = rr_type cur_rr_node \<or> CHANY = rr_type cur_rr_node) then Inl Assert_chan_rr_node_type
      else if \<not> (2 = mux_size \<or> 2 < mux_size) then Inl Assert_fan_in
      else dump_mux_body env st mux_size drivers switch_index)"

definition dump_verilog_switch_box_interc ::
  "x2p_globals \<Rightarrow> emit_state \<Rightarrow> t_sb \<Rightarrow> sb_track \<Rightarrow> x2p_error + emit_state" where
  "dump_verilog_switch_box_interc env st cur_sb_info t =
     (let cur_rr_node = sb_chan_rr_node t in
      if \<not> sb_coordinate_ok env cur_sb_info then Inl Assert_sb_coordinate
      else if check_drive_rr_node_imply_short t \<and> \<not> is_rr_node_exist_opposite_side_in_sb_info t
      then Inl Assert_exist_opposite_side
      else
        (let num_drive_rr_nodes =
               (if check_drive_rr_node_imply_short t then 0 else length (drive_rr_nodes cur_rr_node))
         in if 0 = num_drive_rr_nodes then
              (case dump_verilog_switch_box_short_interc env (snd st) cur_sb_info cur_rr_node
                      num_drive_rr_nodes (rr_type cur_rr_node) of
                 Inl e \<Rightarrow> Inl e | Inr fp \<Rightarrow> Inr (fst st, fp))
            else if 1 = num_drive_rr_nodes then
              (case dump_verilog_switch_box_short_interc env (snd st) cur_sb_info cur_rr_node
                      num_drive_rr_nodes (drive_rr_nodes cur_rr_node ! DEFAULT_SWITCH_ID) of
                 Inl e \<Rightarrow> Inl e | Inr fp \<Rightarrow> Inr (fst st, fp))
            else if 1 < num_drive_rr_nodes then
              (case drive_switch cur_rr_node DEFAULT_SWITCH_ID of
                 Inl e \<Rightarrow> Inl e
               | Inr switch_index \<Rightarrow>
                   dump_verilog_switch_box_mux env st cur_sb_info cur_rr_node num_drive_rr_nodes
                     (drive_rr_nodes cur_rr_node) switch_index)
            else Inr st))"

subsection \<open>Emitting a block\<close>

text \<open>
  \<^verbatim>\<open>dump_verilog_routing_switch_box_unique_subckt\<close>: count, write the ports (a track whose
  direction is neither input nor output ends the program), write the interconnect of every
  output track, and compare the counter with the estimate.
\<close>

definition dump_verilog_routing_switch_box_unique_subckt ::
  "x2p_globals \<Rightarrow> emit_state \<Rightarrow> RRGSB \<Rightarrow> x2p_error + emit_state" where
  "dump_verilog_routing_switch_box_unique_subckt env st rr_sb =
     (case count_verilog_switch_box_conf_bits env (fst st) rr_sb of
        Inl e \<Rightarrow> Inl e
      | Inr num_conf_bits \<Rightarrow>
     (case count_verilog_switch_box_reserved_conf_bits env (fst st) rr_sb of
        Inl e \<Rightarrow> Inl e
      | Inr num_reserved_conf_bits \<Rightarrow>
     (let cur_num_sram = get_sram_orgz_info_num_mem_bit (fst st);
          esti_sram_cnt = cur_num_sram + int num_conf_bits
      in
     (case for_each (chan_sides rr_sb) (\<lambda>side.
             for_each side (\<lambda>t st.
               (case chan_node_direction t of
                  OUT_PORT \<Rightarrow> Inr st
                | IN_PORT \<Rightarrow> Inr st
                | INOUT_PORT \<Rightarrow> Inl Exit_invalid_direction))) st of
        Inl e \<Rightarrow> Inl e
      | Inr st1 \<Rightarrow>
     (case for_each (chan_sides rr_sb) (\<lambda>side.
             for_each side (\<lambda>t st.
               if \<not> (CHANX = rr_type (chan_node t) \<or> CHANY = rr_type (chan_node t))
               then Inl Assert_chan_rr_node_type
               else if OUT_PORT = chan_node_direction t
               then dump_verilog_unique_switch_box_interc env st t
               else Inr st)) st1 of
        Inl e \<Rightarrow> Inl e
      | Inr st2 \<Rightarrow>
          if esti_sram_cnt \<noteq> get_sram_orgz_info_num_mem_bit (fst st2) then Inl Assert_esti_sram_cnt
          else Inr st2)))))"

text \<open>
  \<^verbatim>\<open>print_verilog_routing_switch_box_unique_module\<close> writes through the module manager into a
  second file and does not change the counter: its updates of the counter are commented out
  in the source. What is kept of it is where it stops the program.
\<close>

definition print_verilog_routing_switch_box_unique_module ::
  "x2p_globals \<Rightarrow> t_sram_orgz_info \<Rightarrow> RRGSB \<Rightarrow> x2p_error + unit" where
  "print_verilog_routing_switch_box_unique_module env cur_sram_orgz_info rr_sb =
     (case count_verilog_switch_box_conf_bits env cur_sram_orgz_info rr_sb of
        Inl e \<Rightarrow> Inl e
      | Inr num_conf_bits \<Rightarrow>
     (case count_verilog_switch_box_reserved_conf_bits env cur_sram_orgz_info rr_sb of
        Inl e \<Rightarrow> Inl e
      | Inr num_reserved_conf_bits \<Rightarrow>
     (case for_each (chan_sides rr_sb) (\<lambda>side.
             for_each side (\<lambda>t u.
               (case chan_node_direction t of
                  OUT_PORT \<Rightarrow> Inr u
                | IN_PORT \<Rightarrow> Inr u
                | INOUT_PORT \<Rightarrow> Inl Exit_invalid_direction))) () of
        Inl e \<Rightarrow> Inl e
      | Inr u \<Rightarrow>
          if 0 < num_reserved_conf_bits \<and> SPICE_SRAM_MEMORY_BANK \<noteq> orgz_type cur_sram_orgz_info
          then Inl Assert_memory_bank
          else Inr ())))"

text \<open>
  \<^verbatim>\<open>dump_verilog_routing_switch_box_subckt\<close>, the backend without deduplication. It records
  \<^verbatim>\<open>conf_bits_lsb = cur_num_sram\<close> and \<^verbatim>\<open>conf_bits_msb = cur_num_sram + num_conf_bits\<close> in
  the block; for a mirror under the compact hierarchy it compares the count with the
  mirror's, sets the counter to \<^verbatim>\<open>conf_bits_msb\<close> and returns without writing a file.
\<close>

definition dump_verilog_routing_switch_box_subckt ::
  "x2p_globals \<Rightarrow> emit_state \<Rightarrow> t_sb \<Rightarrow> bool \<Rightarrow> x2p_error + emit_state \<times> t_sb" where
  "dump_verilog_routing_switch_box_subckt env st cur_sb_info compact_routing_hierarchy =
     (if \<not> sb_coordinate_ok env cur_sb_info then Inl Assert_sb_coordinate
      else
     (case count_verilog_switch_box_conf_bits_t_sb env (fst st) cur_sb_info of
        Inl e \<Rightarrow> Inl e
      | Inr num_conf_bits \<Rightarrow>
     (case count_verilog_switch_box_reserved_conf_bits_t_sb env (fst st) cur_sb_info of
        Inl e \<Rightarrow> Inl e
      | Inr num_reserved_conf_bits \<Rightarrow>
     (let cur_num_sram = get_sram_orgz_info_num_mem_bit (fst st);
          esti_sram_cnt = cur_num_sram + int num_conf_bits;
          sb1 = T_sb (sb_info_x cur_sb_info) (sb_info_y cur_sb_info) (chan_rr_node cur_sb_info)
                  (mirror cur_sb_info) (int num_reserved_conf_bits) cur_num_sram
                  (cur_num_sram + int num_conf_bits)
      in
     (case (if compact_routing_hierarchy then mirror sb1 else None) of
        Some the_mirror \<Rightarrow>
          (case count_verilog_switch_box_conf_bits_t_sb env (fst st) the_mirror of
             Inl e \<Rightarrow> Inl e
           | Inr mirror_num_conf_bits \<Rightarrow>
               if mirror_num_conf_bits \<noteq> num_conf_bits then Inl Assert_mirror_num_conf_bits
               else Inr ((update_sram_orgz_info_num_mem_bit (fst st) (sb_conf_bits_msb sb1), snd st), sb1))
      | None \<Rightarrow>
     (case for_each (chan_rr_node sb1) (\<lambda>side.
             for_each side (\<lambda>t st.
               (case sb_chan_rr_node_direction t of
                  OUT_PORT \<Rightarrow> Inr st
                | IN_PORT \<Rightarrow> Inr st
                | INOUT_PORT \<Rightarrow> Inl Exit_invalid_direction))) st of
        Inl e \<Rightarrow> Inl e
      | Inr st1 \<Rightarrow>
     (case for_each (chan_rr_node sb1) (\<lambda>side.
             for_each side (\<lambda>t st.
               if \<not> (CHANX = rr_type (sb_chan_rr_node t) \<or> CHANY = rr_type (sb_chan_rr_node t))
               then Inl Assert_chan_rr_node_type
               else if OUT_PORT = sb_chan_rr_node_direction t
               then dump_verilog_switch_box_interc env st sb1 t
               else Inr st)) st1 of
        Inl e \<Rightarrow> Inl e
      | Inr st2 \<Rightarrow>
          if esti_sram_cnt \<noteq> get_sram_orgz_info_num_mem_bit (fst st2) then Inl Assert_esti_sram_cnt
          else Inr (st2, sb1))))))))"

subsection \<open>Allocating configuration addresses\<close>

text \<open>
  Modelled from the spec: \<^verbatim>\<open>DeviceRRGSB\<close> is declared in another file. It holds the range of
  the block array, the block at each index, and the unique modules; a block instance's
  "configuration range is mutated exactly once, in device-scan order". The three setter
  calls of one allocation are one entry of a record list, in the order of the calls.
\<close>

record conf_bits_range =
  range_num_reserved_conf_bits :: int
  range_conf_bits_lsb :: int
  range_conf_bits_msb :: int

record DeviceRRGSB =
  gsb_range :: "nat \<times> nat"
  get_gsb :: "nat \<Rightarrow> nat \<Rightarrow> RRGSB"
  sb_unique_module :: "RRGSB list"
  cb_unique_module :: "t_rr_type \<Rightarrow> RRGSB list"

type_synonym sb_conf_log = "((nat \<times> nat) \<times> conf_bits_range) list"

type_synonym cb_conf_log = "((nat \<times> nat) \<times> t_rr_type \<times> conf_bits_range) list"

definition update_routing_switch_box_conf_bits ::
  "x2p_globals \<Rightarrow> RRGSB \<Rightarrow> t_sram_orgz_info \<times> sb_conf_log
     \<Rightarrow> x2p_error + t_sram_orgz_info \<times> sb_conf_log" where
  "update_routing_switch_box_conf_bits env rr_sb st =
     (case st of (cur_sram_orgz_info, device_rr_gsb) \<Rightarrow>
     (let cur_num_bl = fst (get_sram_orgz_info_num_blwl cur_sram_orgz_info);
          cur_num_wl = snd (get_sram_orgz_info_num_blwl cur_sram_orgz_info);
          sb_coordinator = (sb_x rr_sb, sb_y rr_sb)
      in
     (case count_verilog_switch_box_conf_bits env cur_sram_orgz_info rr_sb of
        Inl e \<Rightarrow> Inl e
      | Inr n \<Rightarrow>
     (case count_verilog_switch_box_reserved_conf_bits env cur_sram_orgz_info rr_sb of
        Inl e \<Rightarrow> Inl e
      | Inr r \<Rightarrow>
     (let num_conf_bits = int n;
          num_reserved_conf_bits = int r;
          cur_num_sram = get_sram_orgz_info_num_mem_bit cur_sram_orgz_info
      in Inr (update_sram_orgz_info_num_blwl
                (update_sram_orgz_info_num_mem_bit cur_sram_orgz_info (cur_num_sram + num_conf_bits))
                (cur_num_bl + num_conf_bits) (cur_num_wl + num_conf_bits),
              device_rr_gsb @
                [(sb_coordinator,
                  \<lparr>range_num_reserved_conf_bits = num_reserved_conf_bits,
                   range_conf_bits_lsb = cur_num_sram,
                   range_conf_bits_msb = cur_num_sram + num_conf_bits - 1\<rparr>)]))))))"

text \<open>The counting functions of connection blocks, for \<^verbatim>\<open>RRGSB\<close>.\<close>

definition count_verilog_connection_box_interc_conf_bits ::
  "x2p_globals \<Rightarrow> t_sram_orgz_info \<Rightarrow> t_rr_node \<Rightarrow> x2p_error + nat" where
  "count_verilog_connection_box_interc_conf_bits env cur_sram_orgz_info cur_rr_node =
     count_interc_bits (count_num_conf_bits_one_spice_model env) env cur_sram_orgz_info cur_rr_node
       (length (drive_rr_nodes cur_rr_node))"

definition count_verilog_connection_box_interc_reserved_conf_bits ::
  "x2p_globals \<Rightarrow> t_sram_orgz_info \<Rightarrow> t_rr_node \<Rightarrow> x2p_error + nat" where
  "count_verilog_connection_box_interc_reserved_conf_bits env cur_sram_orgz_info cur_rr_node =
     count_interc_bits (count_num_reserved_conf_bits_one_spice_model env) env cur_sram_orgz_info
       cur_rr_node (length (drive_rr_nodes cur_rr_node))"

definition count_verilog_connection_box_one_side_conf_bits ::
  "x2p_globals \<Rightarrow> t_sram_orgz_info \<Rightarrow> t_rr_node list \<Rightarrow> x2p_error + nat" where
  "count_verilog_connection_box_one_side_conf_bits env cur_sram_orgz_info ipin_nodes =
     for_each ipin_nodes (\<lambda>ipin_node num_conf_bits.
        (case count_verilog_connection_box_interc_conf_bits env cur_sram_orgz_info ipin_node of
           Inl e \<Rightarrow> Inl e
         | Inr n \<Rightarrow> Inr (num_conf_bits + n))) 0"

definition count_verilog_connection_box_one_side_reserved_conf_bits ::
  "x2p_globals \<Rightarrow> t_sram_orgz_info \<Rightarrow> t_rr_node list \<Rightarrow> x2p_error + nat" where
  "count_verilog_connection_box_one_side_reserved_conf_bits env cur_sram_orgz_info ipin_nodes =
     for_each ipin_nodes (\<lambda>ipin_node num_reserved_conf_bits.
        (case count_verilog_connection_box_interc_reserved_conf_bits env cur_sram_orgz_info ipin_node of
           Inl e \<Rightarrow> Inl e
         | Inr temp_num_reserved_conf_bits \<Rightarrow>
             Inr (max temp_num_reserved_conf_bits num_reserved_conf_bits))) 0"

definition count_verilog_connection_box_conf_bits ::
  "x2p_globals \<Rightarrow> t_sram_orgz_info \<Rightarrow> RRGSB \<Rightarrow> t_rr_type \<Rightarrow> x2p_error + nat" where
  "count_verilog_connection_box_conf_bits env cur_sram_orgz_info rr_gsb cb_type =
     for_each (cb_ipin_nodes rr_gsb cb_type) (\<lambda>cb_ipin_side num_conf_bits.
        (case count_verilog_connection_box_one_side_conf_bits env cur_sram_orgz_info cb_ipin_side of
           Inl e \<Rightarrow> Inl e
         | Inr n \<Rightarrow> Inr (num_conf_bits + n))) 0"

definition count_verilog_connection_box_reserved_conf_bits ::
  "x2p_globals \<Rightarrow> t_sram_orgz_info \<Rightarrow> RRGSB \<Rightarrow> t_rr_type \<Rightarrow> x2p_error + nat" where
  "count_verilog_connection_box_reserved_conf_bits env cur_sram_orgz_info rr_gsb cb_type =
     for_each (cb_ipin_nodes rr_gsb cb_type) (\<lambda>cb_ipin_side num_reserved_conf_bits.
        (case count_verilog_connection_box_one_side_reserved_conf_bits env cur_sram_orgz_info
                cb_ipin_side of
           Inl e \<Rightarrow> Inl e
         | Inr temp_num_reserved_conf_bits \<Rightarrow>
             Inr (max num_reserved_conf_bits temp_num_reserved_conf_bits))) 0"

definition update_routing_connection_box_conf_bits ::
  "x2p_globals \<Rightarrow> RRGSB \<Rightarrow> t_rr_type \<Rightarrow> t_sram_orgz_info \<times> cb_conf_log
     \<Rightarrow> x2p_error + t_sram_orgz_info \<times> cb_conf_log" where
  "update_routing_connection_box_conf_bits env rr_gsb cb_type st =
     (case st of (cur_sram_orgz_info, device_rr_gsb) \<Rightarrow>
     (let cur_num_bl = fst (get_sram_orgz_info_num_blwl cur_sram_orgz_info);
          cur_num_wl = snd (get_sram_orgz_info_num_blwl cur_sram_orgz_info);
          gsb_coordinator = (sb_x rr_gsb, sb_y rr_gsb)
      in
     (case count_verilog_connection_box_conf_bits env cur_sram_orgz_info rr_gsb cb_type of
        Inl e \<Rightarrow> Inl e
      | Inr n \<Rightarrow>
     (case count_verilog_connection_box_reserved_conf_bits env cur_sram_orgz_info rr_gsb cb_type of
        Inl e \<Rightarrow> Inl e
      | Inr r \<Rightarrow>
     (let num_conf_bits = int n;
          num_reserved_conf_bits = int r;
          cur_num_sram = get_sram_orgz_info_num_mem_bit cur_sram_orgz_info
      in Inr (update_sram_orgz_info_num_blwl
                (update_sram_orgz_info_num_mem_bit cur_sram_orgz_info (cur_num_sram + num_conf_bits))
                (cur_num_bl + num_conf_bits) (cur_num_wl + num_conf_bits),
              device_rr_gsb @
                [(gsb_coordinator, cb_type,
                  \<lparr>range_num_reserved_conf_bits = num_reserved_conf_bits,
                   range_conf_bits_lsb = cur_num_sram,
                   range_conf_bits_msb = cur_num_sram + num_conf_bits - 1\<rparr>)]))))))"

subsection \<open>The switch-block and connection-block parts of \<^verbatim>\<open>print_verilog_routing_resources\<close>\<close>

text \<open>
  The blocks in the order of the two nested loops over the block array: \<^verbatim>\<open>ix\<close> outside,
  \<^verbatim>\<open>iy\<close> inside.
\<close>

definition gsb_scan :: "DeviceRRGSB \<Rightarrow> RRGSB list" where
  "gsb_scan device_rr_gsb =
     concat (map (\<lambda>ix. map (\<lambda>iy. get_gsb device_rr_gsb ix iy) [0 ..< snd (gsb_range device_rr_gsb)])
                 [0 ..< fst (gsb_range device_rr_gsb)])"

text \<open>
  Under the compact hierarchy, the first half of the switch-block part: the snapshot, the
  emission of every unique module, and the restoration of the counter. Its result is the
  state in which the loop over the block instances starts.
\<close>

definition switch_box_unique_modules ::
  "x2p_globals \<Rightarrow> DeviceRRGSB \<Rightarrow> emit_state \<Rightarrow> x2p_error + emit_state" where
  "switch_box_unique_modules env device_rr_gsb st =
     (let stamped_sram_orgz_info = snapshot_sram_orgz_info (fst st) in
      (case for_each (sb_unique_module device_rr_gsb) (\<lambda>unique_mirror st.
               (case dump_verilog_routing_switch_box_unique_subckt env st unique_mirror of
                  Inl e \<Rightarrow> Inl e
                | Inr st1 \<Rightarrow>
                    (case print_verilog_routing_switch_box_unique_module env (fst st1) unique_mirror of
                       Inl e \<Rightarrow> Inl e
                     | Inr u \<Rightarrow> Inr st1))) st of
         Inl e \<Rightarrow> Inl e
       | Inr st1 \<Rightarrow> Inr (copy_sram_orgz_info (fst st1) stamped_sram_orgz_info, snd st1)))"

definition switch_box_instances ::
  "x2p_globals \<Rightarrow> DeviceRRGSB \<Rightarrow> t_sram_orgz_info \<times> sb_conf_log
     \<Rightarrow> x2p_error + t_sram_orgz_info \<times> sb_conf_log" where
  "switch_box_instances env device_rr_gsb st =
     for_each (gsb_scan device_rr_gsb) (update_routing_switch_box_conf_bits env) st"

text \<open>
  The switch-block part. Without the compact hierarchy every block of \<^verbatim>\<open>sb_info\<close> is emitted
  by the backend without deduplication, \<^verbatim>\<open>ix\<close> from 0 to \<^verbatim>\<open>nx\<close> and \<^verbatim>\<open>iy\<close> from 0 to \<^verbatim>\<open>ny\<close>;
  the blocks come back with their recorded ranges.
\<close>

definition print_verilog_routing_resources_switch_boxes ::
  "x2p_globals \<Rightarrow> bool \<Rightarrow> DeviceRRGSB \<Rightarrow> (nat \<Rightarrow> nat \<Rightarrow> t_sb)
     \<Rightarrow> emit_state \<times> sb_conf_log \<times> t_sb list
     \<Rightarrow> x2p_error + emit_state \<times> sb_conf_log \<times> t_sb list" where
  "print_verilog_routing_resources_switch_boxes env compact_routing_hierarchy device_rr_gsb sb_info st =
     (case st of (est, device_conf, sbs) \<Rightarrow>
      if compact_routing_hierarchy then
        (case switch_box_unique_modules env device_rr_gsb est of
           Inl e \<Rightarrow> Inl e
         | Inr est1 \<Rightarrow>
             (case switch_box_instances env device_rr_gsb (fst est1, device_conf) of
                Inl e \<Rightarrow> Inl e
              | Inr (cur_sram_orgz_info, device_conf1) \<Rightarrow>
                  Inr ((cur_sram_orgz_info, snd est1), device_conf1, sbs)))
      else
        for_each (concat (map (\<lambda>ix. map (\<lambda>iy. (ix, iy)) [0 ..< nat (ny env + 1)])
                              [0 ..< nat (nx env + 1)]))
          (\<lambda>(ix, iy) (est, device_conf, sbs).
             (case dump_verilog_routing_switch_box_subckt env est (sb_info ix iy)
                     compact_routing_hierarchy of
                Inl e \<Rightarrow> Inl e
              | Inr (est1, sb1) \<Rightarrow> Inr (est1, device_conf, sbs @ [sb1])))
          (est, device_conf, sbs))"

text \<open>
  The connection-block part under the compact hierarchy. The emission of a unique connection
  block, \<^verbatim>\<open>dump_verilog_routing_connection_box_unique_module\<close>, is a parameter: any function of
  the emission state that may stop the program.
\<close>

definition connection_box_unique_modules ::
  "(RRGSB \<Rightarrow> t_rr_type \<Rightarrow> emit_state \<Rightarrow> x2p_error + emit_state)
     \<Rightarrow> DeviceRRGSB \<Rightarrow> emit_state \<Rightarrow> x2p_error + emit_state" where
  "connection_box_unique_modules dump_verilog_routing_connection_box_unique_module device_rr_gsb st =
     (let stamped_sram_orgz_info = snapshot_sram_orgz_info (fst st) in
      (case for_each (cb_unique_module device_rr_gsb CHANX) (\<lambda>unique_mirror.
               dump_verilog_routing_connection_box_unique_module unique_mirror CHANX) st of
         Inl e \<Rightarrow> Inl e
       | Inr st1 \<Rightarrow>
      (case for_each (cb_unique_module device_rr_gsb CHANY) (\<lambda>unique_mirror.
               dump_verilog_routing_connection_box_unique_module unique_mirror CHANY) st1 of
         Inl e \<Rightarrow> Inl e
       | Inr st2 \<Rightarrow> Inr (copy_sram_orgz_info (fst st2) stamped_sram_orgz_info, snd st2))))"

definition connection_box_instances ::
  "x2p_globals \<Rightarrow> DeviceRRGSB \<Rightarrow> t_sram_orgz_info \<times> cb_conf_log
     \<Rightarrow> x2p_error + t_sram_orgz_info \<times> cb_conf_log" where
  "connection_box_instances env device_rr_gsb st =
     for_each (gsb_scan device_rr_gsb) (\<lambda>rr_gsb st.
        (case update_routing_connection_box_conf_bits env rr_gsb CHANX st of
           Inl e \<Rightarrow> Inl e
         | Inr st1 \<Rightarrow> update_routing_connection_box_conf_bits env rr_gsb CHANY st1)) st"

definition print_verilog_routing_resources_connection_boxes_compact ::
  "x2p_globals \<Rightarrow> (RRGSB \<Rightarrow> t_rr_type \<Rightarrow> emit_state \<Rightarrow> x2p_error + emit_state)
     \<Rightarrow> DeviceRRGSB \<Rightarrow> emit_state \<times> cb_conf_log \<Rightarrow> x2p_error + emit_state \<times> cb_conf_log" where
  "print_verilog_routing_resources_connection_boxes_compact env
       dump_verilog_routing_connection_box_unique_module device_rr_gsb st =
     (case connection_box_unique_modules dump_verilog_routing_connection_box_unique_module
             device_rr_gsb (fst st) of
        Inl e \<Rightarrow> Inl e
      | Inr est1 \<Rightarrow>
          (case connection_box_instances env device_rr_gsb (fst est1, snd st) of
             Inl e \<Rightarrow> Inl e
           | Inr (cur_sram_orgz_info, device_conf1) \<Rightarrow>
               Inr ((cur_sram_orgz_info, snd est1), device_conf1)))"

subsection \<open>Example blocks\<close>

text \<open>
  One multiplexer model in CMOS technology; a multiplexer of \<open>n\<close> inputs takes \<open>n\<close>
  configuration bits and \<open>n\<close> reserved bits. The counter starts at 0.
\<close>

definition env0 :: x2p_globals where
  "env0 = \<lparr>nx = 1, ny = 1,
            switch_inf = [\<lparr>spice_model_type = SPICE_MODEL_MUX, design_tech = SPICE_MODEL_DESIGN_CMOS\<rparr>],
            count_num_conf_bits_one_spice_model = (\<lambda>m orgz n. n),
            count_num_reserved_conf_bits_one_spice_model = (\<lambda>m orgz n. n)\<rparr>"

definition info0 :: t_sram_orgz_info where
  "info0 = \<lparr>orgz_type = SPICE_SRAM_MEMORY_BANK, num_mem_bit = 0, num_bl = 0, num_wl = 0\<rparr>"

text \<open>A CHANX node with \<open>k\<close> drivers, all channel nodes behind switch 0.\<close>

definition node_with_drivers :: "nat \<Rightarrow> t_rr_node" where
  "node_with_drivers k = \<lparr>rr_type = CHANX, drive_rr_nodes = replicate k CHANY,
                           drive_switches = replicate k 0\<rparr>"

text \<open>An output track with \<open>k\<close> drivers that does not pass through the block.\<close>

definition out_track :: "nat \<Rightarrow> chan_track" where
  "out_track k = \<lparr>chan_node = node_with_drivers k, chan_node_direction = OUT_PORT,
                   chan_node_segment = 0, is_sb_node_exist_opposite_side = False,
                   is_sb_node_passing_wire = False\<rparr>"

text \<open>An output track of a wire that passes through the block; the wire has \<open>k\<close> drivers.\<close>

definition passing_track :: "nat \<Rightarrow> chan_track" where
  "passing_track k = \<lparr>chan_node = node_with_drivers k, chan_node_direction = OUT_PORT,
                       chan_node_segment = 1, is_sb_node_exist_opposite_side = True,
                       is_sb_node_passing_wire = True\<rparr>"

definition in_track :: chan_track where
  "in_track = \<lparr>chan_node = node_with_drivers 0, chan_node_direction = IN_PORT,
                chan_node_segment = 0, is_sb_node_exist_opposite_side = False,
                is_sb_node_passing_wire = False\<rparr>"

text \<open>
  A block with two sides: multiplexers of 2 and of 3 inputs, a single-driver track, a passing
  wire and two input tracks.
\<close>

definition rr_sb_at :: "nat \<Rightarrow> nat \<Rightarrow> RRGSB" where
  "rr_sb_at x y = \<lparr>sb_x = x, sb_y = y,
                    chan_sides = [[out_track 2, in_track, passing_track 2],
                                  [out_track 3, out_track 1, in_track]],
                    cb_ipin_nodes = (\<lambda>cb_type. [])\<rparr>"

text \<open>A block with one output track of four drivers.\<close>

definition rr_sb_wide :: "nat \<Rightarrow> nat \<Rightarrow> RRGSB" where
  "rr_sb_wide x y = \<lparr>sb_x = x, sb_y = y, chan_sides = [[out_track 4]],
                      cb_ipin_nodes = (\<lambda>cb_type. [])\<rparr>"

text \<open>A device of one column and two rows whose blocks share one unique module.\<close>

definition device0 :: DeviceRRGSB where
  "device0 = \<lparr>gsb_range = (1, 2), get_gsb = (\<lambda>ix iy. rr_sb_at ix iy),
               sb_unique_module = [rr_sb_at 0 0], cb_unique_module = (\<lambda>cb_type. [])\<rparr>"

text \<open>
  A device whose unique module has the shape of \<open>rr_sb_at\<close> while its only instance has
  the shape of \<open>rr_sb_wide\<close>.
\<close>

definition device_mismatch :: DeviceRRGSB where
  "device_mismatch = \<lparr>gsb_range = (1, 1), get_gsb = (\<lambda>ix iy. rr_sb_wide ix iy),
               sb_unique_module = [rr_sb_at 0 0], cb_unique_module = (\<lambda>cb_type. [])\<rparr>"

text \<open>The same tracks in the block structure of the backend without deduplication.\<close>

definition sb_out_track :: "nat \<Rightarrow> sb_track" where
  "sb_out_track k = \<lparr>sb_chan_rr_node = node_with_drivers k, sb_chan_rr_node_direction = OUT_PORT,
                      is_rr_node_exist_opposite_side_in_sb_info = False,
                      check_drive_rr_node_imply_short = False\<rparr>"

definition sb_passing_track :: "nat \<Rightarrow> sb_track" where
  "sb_passing_track k = \<lparr>sb_chan_rr_node = node_with_drivers k, sb_chan_rr_node_direction = OUT_PORT,
                          is_rr_node_exist_opposite_side_in_sb_info = True,
                          check_drive_rr_node_imply_short = True\<rparr>"

definition sb_in_track :: sb_track where
  "sb_in_track = \<lparr>sb_chan_rr_node = node_with_drivers 0, sb_chan_rr_node_direction = IN_PORT,
                   is_rr_node_exist_opposite_side_in_sb_info = False,
                   check_drive_rr_node_imply_short = False\<rparr>"

definition sb_info_at :: "int \<Rightarrow> int \<Rightarrow> t_sb option \<Rightarrow> t_sb" where
  "sb_info_at x y m = T_sb x y [[sb_out_track 2, sb_in_track, sb_passing_track 2],
                                [sb_out_track 3, sb_out_track 1, sb_in_track]] m 0 0 0"

definition sb_info_wide :: "int \<Rightarrow> int \<Rightarrow> t_sb option \<Rightarrow> t_sb" where
  "sb_info_wide x y m = T_sb x y [[sb_out_track 4]] m 0 0 0"


text \<open>
  The example device with one unique connection block per channel type, and an emission of
  unique connection blocks that consumes 7 bits and writes one multiplexer.
\<close>

definition device_cb :: DeviceRRGSB where
  "device_cb = device0\<lparr>cb_unique_module := (\<lambda>cb_type. [rr_sb_at 0 0])\<rparr>"

definition cb_emission_example :: "RRGSB \<Rightarrow> t_rr_type \<Rightarrow> emit_state \<Rightarrow> x2p_error + emit_state" where
  "cb_emission_example rr_gsb cb_type st =
     Inr (update_sram_orgz_info_num_mem_bit (fst st) (get_sram_orgz_info_num_mem_bit (fst st) + 7),
          snd st @ [Multiplexer])"
subsection \<open>Notions used to state the properties\<close>

text \<open>
  The Interconnect Classifier in the words of the spec: a sink node is a "self-loop (no
  driver ...), short connection (exactly one driver), or multiplexer (two or more drivers)".
  The functions of the source are compared with this classification of a fan-in.
\<close>

definition classify_fan_in :: "nat \<Rightarrow> interc" where
  "classify_fan_in n = (if n = 0 then Self_loop else if n = 1 then Short_connection else Multiplexer)"

text \<open>A node's count of reserved bits is defined and at most \<open>r\<close>.\<close>

definition reserved_bits_le :: "x2p_globals \<Rightarrow> t_sram_orgz_info \<Rightarrow> chan_track \<Rightarrow> nat \<Rightarrow> bool" where
  "reserved_bits_le env info t r =
     (\<exists>k. count_verilog_switch_box_interc_reserved_conf_bits env info t = Inr k \<and> k \<le> r)"

text \<open>
  The configuration bits of a multiplexer of \<open>k\<close> inputs driving a node, by the model of
  the node's first drive switch; no bits below two inputs.
\<close>

definition mux_conf_bits :: "x2p_globals \<Rightarrow> e_sram_orgz \<Rightarrow> t_rr_node \<Rightarrow> nat \<Rightarrow> nat" where
  "mux_conf_bits env orgz cur_rr_node k =
     (if k < 2 then 0
      else count_num_conf_bits_one_spice_model env
             (switch_inf env ! nat (drive_switches cur_rr_node ! 0)) orgz k)"

text \<open>
  The fan-in with which the two backends emit a node: 0 for a wire that passes through the
  block, else the number of drivers.
\<close>

definition emitted_num_drive_rr_nodes :: "chan_track \<Rightarrow> nat" where
  "emitted_num_drive_rr_nodes t =
     (if is_sb_node_passing_wire t then 0 else length (drive_rr_nodes (chan_node t)))"

definition emitted_num_drive_rr_nodes_t_sb :: "sb_track \<Rightarrow> nat" where
  "emitted_num_drive_rr_nodes_t_sb t =
     (if check_drive_rr_node_imply_short t then 0 else length (drive_rr_nodes (sb_chan_rr_node t)))"







text \<open>
  Address ranges. \<open>conf_range\<close> is the set of addresses from \<^verbatim>\<open>lsb\<close> to \<^verbatim>\<open>msb\<close>; a list
  of ranges is chained from \<open>a\<close> to \<open>b\<close> when the first starts at \<open>a\<close>, each next one
  starts right after the one before, and the last ends right before \<open>b\<close> (a range of no
  bits ends right before it starts).
\<close>

definition conf_range :: "conf_bits_range \<Rightarrow> int set" where
  "conf_range r = {range_conf_bits_lsb r .. range_conf_bits_msb r}"

fun chained :: "int \<Rightarrow> conf_bits_range list \<Rightarrow> int \<Rightarrow> bool" where
  "chained a [] b = (a = b)"
| "chained a (r # rs) b =
     (range_conf_bits_lsb r = a \<and> a - 1 \<le> range_conf_bits_msb r \<and>
      chained (range_conf_bits_msb r + 1) rs b)"

section \<open>Properties of the clock network extension\<close>

subsection \<open>Loops as folds\<close>



subsection \<open>The entry point and the number of trees\<close>

lemma append_clock_rr_graph_nonzero_trees:
  assumes "num_trees clk_ntwk \<noteq> 0"
  shows "append_clock_rr_graph c0 ctx lk clk_ntwk verbose = Inr (CMD_EXEC_SUCCESS, ctx, lk)"
  using assms by (simp add: append_clock_rr_graph_def)

lemma append_clock_rr_graph_never_fatal:
  "append_clock_rr_graph c0 ctx lk clk_ntwk verbose \<noteq> Inr (CMD_EXEC_FATAL_ERROR, ctx', lk')"
  by (auto simp: append_clock_rr_graph_def Let_def split: prod.splits sum.splits)

text \<open>
  C4. The claim: with more than one clock tree \<^verbatim>\<open>append_clock_rr_graph\<close> reports the
  unsupported configuration and returns the fatal error code, with zero trees it is a no-op
  returning success, and only with exactly one tree does it augment the graph. The code
  tests \<^verbatim>\<open>if (clk_ntwk.num_trees())\<close> under the comment "Skip if there is no clock tree":
  the test holds for every count other than zero. With two trees the function returns
  \<^verbatim>\<open>CMD_EXEC_SUCCESS\<close>, not the fatal code, and with one tree it returns without adding a
  node; the device and the lookup are left as they were.
\<close>

theorem append_clock_rr_graph_two_trees_success:
  "append_clock_rr_graph 4 device_3x3 Map.empty (clk_trees 2) False
     = Inr (CMD_EXEC_SUCCESS, device_3x3, Map.empty)
   \<and> append_clock_rr_graph 4 device_3x3 Map.empty (clk_trees 1) False
     = Inr (CMD_EXEC_SUCCESS, device_3x3, Map.empty)"
  by (simp add: append_clock_rr_graph_def num_trees_def clk_trees_def)

subsection \<open>Node count and estimate\<close>










subsection \<open>Track indices of the new nodes\<close>





section \<open>Properties of the switch-block functions\<close>

subsection \<open>Loops that may stop\<close>

lemma for_each_Cons_Inr:
  assumes "for_each (x # xs) body a = Inr r"
  obtains b where "body x a = Inr b" "for_each xs body b = Inr r"
  using assms by (cases "body x a") simp_all

text \<open>
  A loop that keeps a running maximum: every step raises the accumulator to a value that
  bounds what the step saw (\<open>Q\<close>), and either keeps it or sets it to a value the step saw
  (\<open>R\<close>).
\<close>

lemma for_each_max_general:
  fixes a r :: nat
  assumes step: "\<And>x a r. x \<in> set xs \<Longrightarrow> body x a = Inr r \<Longrightarrow> a \<le> r \<and> Q x r \<and> (r = a \<or> R x r)"
    and up: "\<And>x r r'. x \<in> set xs \<Longrightarrow> Q x r \<Longrightarrow> r \<le> r' \<Longrightarrow> Q x r'"
    and res: "for_each xs body a = Inr r"
  shows "a \<le> r \<and> (\<forall>x \<in> set xs. Q x r) \<and> (r = a \<or> (\<exists>x \<in> set xs. R x r))"
  using assms
proof (induction xs arbitrary: a)
  case Nil
  from Nil.prems(3) show ?case by simp
next
  case (Cons x xs)
  from Cons.prems(3) obtain b where b: "body x a = Inr b" and rest: "for_each xs body b = Inr r"
    by (rule for_each_Cons_Inr)
  have x_in: "x \<in> set (x # xs)" by simp
  have sx: "a \<le> b \<and> Q x b \<and> (b = a \<or> R x b)"
    by (rule Cons.prems(1) [OF x_in b])
  have ih: "b \<le> r \<and> (\<forall>y \<in> set xs. Q y r) \<and> (r = b \<or> (\<exists>y \<in> set xs. R y r))"
  proof (rule Cons.IH [OF _ _ rest])
    fix y a' r' assume "y \<in> set xs" "body y a' = Inr r'"
    then show "a' \<le> r' \<and> Q y r' \<and> (r' = a' \<or> R y r')"
      using Cons.prems(1) [of y a' r'] by simp
  next
    fix y r1 r2 assume "y \<in> set xs" "Q y r1" "r1 \<le> r2"
    then show "Q y r2"
      using Cons.prems(2) [of y r1 r2] by simp
  qed
  have qx: "Q x r"
    using Cons.prems(2) [OF x_in, of b r] sx ih by blast
  from sx ih qx show ?case
    by (metis order_trans set_ConsD list.set_intros(1,2))
qed

subsection \<open>Reserved bits of a block\<close>

lemma side_reserved_max:
  assumes "count_verilog_switch_box_side_reserved_conf_bits env info side seg_id = Inr r"
  shows "(\<forall>t \<in> set side. seg_id = chan_node_segment t \<and> chan_node_direction t = OUT_PORT
            \<longrightarrow> reserved_bits_le env info t r)
       \<and> (r = 0 \<or> (\<exists>t \<in> set side. seg_id = chan_node_segment t \<and> chan_node_direction t = OUT_PORT
            \<and> count_verilog_switch_box_interc_reserved_conf_bits env info t = Inr r))"
proof -
  let ?Q = "\<lambda>t r. seg_id = chan_node_segment t \<and> chan_node_direction t = OUT_PORT
            \<longrightarrow> reserved_bits_le env info t r"
  let ?R = "\<lambda>t r. seg_id = chan_node_segment t \<and> chan_node_direction t = OUT_PORT
            \<and> count_verilog_switch_box_interc_reserved_conf_bits env info t = Inr r"
  note res = assms [unfolded count_verilog_switch_box_side_reserved_conf_bits_def]
  have "0 \<le> r \<and> (\<forall>t \<in> set side. ?Q t r) \<and> (r = 0 \<or> (\<exists>t \<in> set side. ?R t r))"
  proof (rule for_each_max_general [where Q = ?Q and R = ?R, OF _ _ res], goal_cases)
    case (1 t a r)
    from 1(2) show ?case
      by (auto simp: reserved_bits_le_def max_def split: if_splits PORTS.splits sum.splits)
  next
    case (2 t r r')
    then show ?case
      by (auto simp: reserved_bits_le_def)
  qed
  then show ?thesis by simp
qed

lemma segs_reserved_max:
  assumes "for_each (get_segment_ids side) (\<lambda>seg_id num_reserved_conf_bits.
           (case count_verilog_switch_box_side_reserved_conf_bits env info side seg_id of
              Inl e \<Rightarrow> Inl e
            | Inr temp_num_reserved_conf_bits \<Rightarrow>
                Inr (max num_reserved_conf_bits temp_num_reserved_conf_bits))) a = Inr r"
  shows "a \<le> r
       \<and> (\<forall>t \<in> set side. chan_node_direction t = OUT_PORT \<longrightarrow> reserved_bits_le env info t r)
       \<and> (r = a \<or> (\<exists>t \<in> set side. chan_node_direction t = OUT_PORT
            \<and> count_verilog_switch_box_interc_reserved_conf_bits env info t = Inr r))"
proof -
  let ?Q = "\<lambda>seg_id r. \<forall>t \<in> set side. seg_id = chan_node_segment t \<and> chan_node_direction t = OUT_PORT
            \<longrightarrow> reserved_bits_le env info t r"
  let ?R = "\<lambda>seg_id r. \<exists>t \<in> set side. seg_id = chan_node_segment t \<and> chan_node_direction t = OUT_PORT
            \<and> count_verilog_switch_box_interc_reserved_conf_bits env info t = Inr r"
  have "a \<le> r \<and> (\<forall>seg_id \<in> set (get_segment_ids side). ?Q seg_id r)
      \<and> (r = a \<or> (\<exists>seg_id \<in> set (get_segment_ids side). ?R seg_id r))"
  proof (rule for_each_max_general [where Q = ?Q and R = ?R, OF _ _ assms], goal_cases)
    case (1 seg_id a r)
    then obtain k where k: "count_verilog_switch_box_side_reserved_conf_bits env info side seg_id = Inr k"
        and r: "r = max a k"
      by (auto split: sum.splits)
    note m = side_reserved_max [OF k]
    have le: "\<forall>t \<in> set side. seg_id = chan_node_segment t \<and> chan_node_direction t = OUT_PORT
            \<longrightarrow> reserved_bits_le env info t r"
      using m r by (auto simp: reserved_bits_le_def)
    have "r = a \<or> ?R seg_id r"
    proof (cases "k \<le> a")
      case True
      then show ?thesis using r by simp
    next
      case False
      then have "r = k" "k \<noteq> 0" using r by simp_all
      then show ?thesis using m by blast
    qed
    then show ?case using le r by simp
  next
    case (2 seg_id r r')
    then show ?case by (auto simp: reserved_bits_le_def)
  qed
  moreover have "chan_node_segment t \<in> set (get_segment_ids side)" if "t \<in> set side" for t
    using that by (simp add: get_segment_ids_def)
  ultimately show ?thesis by blast
qed

lemma switch_box_reserved_max:
  assumes "count_verilog_switch_box_reserved_conf_bits env info rr_sb = Inr r"
  shows "(\<forall>side \<in> set (chan_sides rr_sb). \<forall>t \<in> set side.
            chan_node_direction t = OUT_PORT \<longrightarrow> reserved_bits_le env info t r)
       \<and> (r = 0 \<or> (\<exists>side \<in> set (chan_sides rr_sb). \<exists>t \<in> set side. chan_node_direction t = OUT_PORT
            \<and> count_verilog_switch_box_interc_reserved_conf_bits env info t = Inr r))"
proof -
  let ?Q = "\<lambda>side r. \<forall>t \<in> set side. chan_node_direction t = OUT_PORT \<longrightarrow> reserved_bits_le env info t r"
  let ?R = "\<lambda>side r. \<exists>t \<in> set side. chan_node_direction t = OUT_PORT
            \<and> count_verilog_switch_box_interc_reserved_conf_bits env info t = Inr r"
  note res = assms [unfolded count_verilog_switch_box_reserved_conf_bits_def]
  have "0 \<le> r \<and> (\<forall>side \<in> set (chan_sides rr_sb). ?Q side r)
      \<and> (r = 0 \<or> (\<exists>side \<in> set (chan_sides rr_sb). ?R side r))"
  proof (rule for_each_max_general [where Q = ?Q and R = ?R, OF _ _ res], goal_cases)
    case (1 side a r)
    from segs_reserved_max [OF 1(2)] show ?case by simp
  next
    case (2 side r r')
    then show ?case by (auto simp: reserved_bits_le_def)
  qed
  then show ?thesis by simp
qed

text \<open>
  C6. The reserved configuration-bit count of a switch block,
  \<^verbatim>\<open>count_verilog_switch_box_reserved_conf_bits\<close>, is the maximum, not the sum, of the
  reserved-bit requirements of its output-direction channel nodes: whenever the function
  returns \<open>r\<close>, the requirement of every output node of every side is defined and at most
  \<open>r\<close>, and \<open>r\<close> is the requirement of one of them, or 0.
\<close>

theorem switch_box_reserved_bits_is_maximum:
  assumes "count_verilog_switch_box_reserved_conf_bits env cur_sram_orgz_info rr_sb = Inr r"
  shows "(\<forall>side \<in> set (chan_sides rr_sb). \<forall>t \<in> set side.
            chan_node_direction t = OUT_PORT \<longrightarrow>
              (\<exists>k. count_verilog_switch_box_interc_reserved_conf_bits env cur_sram_orgz_info t = Inr k
                   \<and> k \<le> r))
       \<and> (r = 0 \<or> (\<exists>side \<in> set (chan_sides rr_sb). \<exists>t \<in> set side. chan_node_direction t = OUT_PORT
            \<and> count_verilog_switch_box_interc_reserved_conf_bits env cur_sram_orgz_info t = Inr r))"
  using switch_box_reserved_max [OF assms] unfolding reserved_bits_le_def .

text \<open>
  The block of the example has output nodes that need 2, 0, 3 and 0 reserved bits: the
  function returns 3, where the sum is 5.
\<close>

theorem switch_box_reserved_bits_is_maximum_witness:
  "count_verilog_switch_box_reserved_conf_bits env0 info0 (rr_sb_at 0 0) = Inr 3
   \<and> map (count_verilog_switch_box_interc_reserved_conf_bits env0 info0)
       (filter (\<lambda>t. chan_node_direction t = OUT_PORT) (concat (chan_sides (rr_sb_at 0 0))))
       = [Inr 2, Inr 0, Inr 3, Inr 0]
   \<and> (\<exists>side \<in> set (chan_sides (rr_sb_at 0 0)). \<exists>t \<in> set side. chan_node_direction t = OUT_PORT
            \<and> count_verilog_switch_box_interc_reserved_conf_bits env0 info0 t = Inr 3)"
proof -
  have c: "count_verilog_switch_box_reserved_conf_bits env0 info0 (rr_sb_at 0 0) = Inr 3"
    by code_simp
  have n: "map (count_verilog_switch_box_interc_reserved_conf_bits env0 info0)
       (filter (\<lambda>t. chan_node_direction t = OUT_PORT) (concat (chan_sides (rr_sb_at 0 0))))
       = [Inr 2, Inr 0, Inr 3, Inr 0]"
    by code_simp
  have "(3 :: nat) \<noteq> 0" by simp
  with switch_box_reserved_bits_is_maximum [OF c]
  have "\<exists>side \<in> set (chan_sides (rr_sb_at 0 0)). \<exists>t \<in> set side. chan_node_direction t = OUT_PORT
            \<and> count_verilog_switch_box_interc_reserved_conf_bits env0 info0 t = Inr 3"
    by blast
  with c n show ?thesis by (intro conjI)
qed

subsection \<open>What one interconnect emits and consumes\<close>

lemma short_interc_unique:
  "dump_verilog_unique_switch_box_short_interc fp n k ty = Inr fp' \<Longrightarrow>
     (k = 0 \<or> k = 1) \<and> fp' = fp @ [classify_fan_in k]"
  by (auto simp: dump_verilog_unique_switch_box_short_interc_def classify_fan_in_def
      split: if_splits t_rr_type.splits)

lemma short_interc_t_sb:
  "dump_verilog_switch_box_short_interc env fp sb n k ty = Inr fp' \<Longrightarrow>
     (k = 0 \<or> k = 1) \<and> fp' = fp @ [classify_fan_in k]"
  by (auto simp: dump_verilog_switch_box_short_interc_def classify_fan_in_def
      split: if_splits t_rr_type.splits)

lemma dump_mux_body_Inr:
  assumes "dump_mux_body env (info, fp) mux_size drivers switch_index = Inr (info', fp')"
  shows "fp' = fp @ [Multiplexer] \<and> orgz_type info' = orgz_type info \<and>
         (\<exists>m. switch_spice_model env switch_index = Inr m \<and>
            num_mem_bit info' = num_mem_bit info
              + int (count_num_conf_bits_one_spice_model env m (orgz_type info) mux_size))"
  using assms
  by (auto simp: dump_mux_body_def Let_def get_sram_orgz_info_num_mem_bit_def
      update_sram_orgz_info_num_mem_bit_def update_sram_orgz_info_num_blwl_def
      split: sum.splits e_spice_model_design_tech.splits)

lemma unique_interc_emitted:
  assumes "dump_verilog_unique_switch_box_interc env (info, fp) t = Inr (info', fp')"
  shows "fp' = fp @ (if \<not> is_sb_node_passing_wire t \<and> drive_rr_nodes (chan_node t) = [] then []
                     else [classify_fan_in (if is_sb_node_passing_wire t then 0
                                            else length (drive_rr_nodes (chan_node t)))])"
proof (cases "\<not> is_sb_node_passing_wire t \<and> drive_rr_nodes (chan_node t) = []")
  case True
  then show ?thesis using assms by (simp add: dump_verilog_unique_switch_box_interc_def)
next
  case False
  define k where "k = (if is_sb_node_passing_wire t then 0 else length (drive_rr_nodes (chan_node t)))"
  consider "k = 0" | "k = 1" | "1 < k" by linarith
  then show ?thesis
  proof cases
    case 1
    then show ?thesis
      using assms False
      by (auto simp: dump_verilog_unique_switch_box_interc_def Let_def k_def
          split: sum.splits if_splits dest!: short_interc_unique)
  next
    case 2
    then show ?thesis
      using assms False
      by (auto simp: dump_verilog_unique_switch_box_interc_def Let_def k_def
          split: sum.splits if_splits dest!: short_interc_unique)
  next
    case 3
    then show ?thesis
      using assms False
      by (auto simp: dump_verilog_unique_switch_box_interc_def Let_def k_def classify_fan_in_def
          dump_verilog_unique_switch_box_mux_def
          split: sum.splits if_splits dest!: dump_mux_body_Inr)
  qed
qed

lemma t_sb_interc_emitted:
  assumes "dump_verilog_switch_box_interc env (info, fp) sb t = Inr (info', fp')"
  shows "fp' = fp @ [classify_fan_in (if check_drive_rr_node_imply_short t then 0
                                      else length (drive_rr_nodes (sb_chan_rr_node t)))]"
proof -
  define k where "k = (if check_drive_rr_node_imply_short t then 0 else length (drive_rr_nodes (sb_chan_rr_node t)))"
  consider "k = 0" | "k = 1" | "1 < k" by linarith
  then show ?thesis
  proof cases
    case 1
    then show ?thesis
      using assms
      by (auto simp: dump_verilog_switch_box_interc_def Let_def k_def
          split: sum.splits if_splits dest!: short_interc_t_sb)
  next
    case 2
    then show ?thesis
      using assms
      by (auto simp: dump_verilog_switch_box_interc_def Let_def k_def
          split: sum.splits if_splits dest!: short_interc_t_sb)
  next
    case 3
    then show ?thesis
      using assms
      by (auto simp: dump_verilog_switch_box_interc_def Let_def k_def classify_fan_in_def
          dump_verilog_switch_box_mux_def
          split: sum.splits if_splits dest!: dump_mux_body_Inr)
  qed
qed


lemma count_interc_bits_Inr:
  assumes "count_interc_bits cost env info n k = Inr b"
  shows "if k < 2 then b = 0
         else b = cost (switch_inf env ! nat (drive_switches n ! 0)) (orgz_type info) k
              \<and> switch_spice_model env (drive_switches n ! 0) = Inr (switch_inf env ! nat (drive_switches n ! 0))
              \<and> drive_switches n \<noteq> []"
  using assms
  by (auto simp: count_interc_bits_def drive_switch_def switch_spice_model_def
      split: if_splits sum.splits)

lemma count_interc_conf_bits_Inr:
  assumes "count_verilog_switch_box_interc_conf_bits env info t = Inr b"
  shows "b = mux_conf_bits env (orgz_type info) (chan_node t) (counted_num_drive_rr_nodes t)"
  using count_interc_bits_Inr [OF assms [unfolded count_verilog_switch_box_interc_conf_bits_def Let_def]]
  by (simp add: mux_conf_bits_def split: if_splits)


lemma dump_mux_body_counter:
  assumes "dump_mux_body env (info, fp) k drivers (drive_switches n ! 0) = Inr (info', fp')"
    and "2 \<le> k"
  shows "orgz_type info' = orgz_type info \<and>
         num_mem_bit info' = num_mem_bit info + int (mux_conf_bits env (orgz_type info) n k)"
  using dump_mux_body_Inr [OF assms(1)] assms(2)
  by (auto simp: mux_conf_bits_def switch_spice_model_def split: if_splits)

lemma unique_interc_counter:
  assumes "dump_verilog_unique_switch_box_interc env (info, fp) t = Inr (info', fp')"
  shows "orgz_type info' = orgz_type info \<and>
         num_mem_bit info' = num_mem_bit info
           + int (mux_conf_bits env (orgz_type info) (chan_node t) (emitted_num_drive_rr_nodes t))"
proof (cases "emitted_num_drive_rr_nodes t < 2")
  case True
  then show ?thesis
    using assms
    by (auto simp: dump_verilog_unique_switch_box_interc_def Let_def emitted_num_drive_rr_nodes_def
        mux_conf_bits_def split: sum.splits if_splits)
next
  case False
  then have k: "2 \<le> length (drive_rr_nodes (chan_node t))" "\<not> is_sb_node_passing_wire t"
    by (auto simp: emitted_num_drive_rr_nodes_def split: if_splits)
  from assms k have "dump_mux_body env (info, fp) (length (drive_rr_nodes (chan_node t)))
        (drive_rr_nodes (chan_node t)) (drive_switches (chan_node t) ! 0) = Inr (info', fp')"
    by (auto simp: dump_verilog_unique_switch_box_interc_def Let_def DEFAULT_SWITCH_ID_def
        dump_verilog_unique_switch_box_mux_def drive_switch_def split: sum.splits if_splits)
  from dump_mux_body_counter [OF this k(1)] k show ?thesis
    by (simp add: emitted_num_drive_rr_nodes_def)
qed


lemma classify_fan_in_Multiplexer: "(classify_fan_in n = Multiplexer) = (2 \<le> n)"
  by (auto simp: classify_fan_in_def)

text \<open>
  C3, as the code has it. For an output-direction channel node processed in a switch block, at
  most one of self-loop, single-driver short connection and multiplexer is written, chosen by
  the fan-in the backend emits with: 0 for a wire that passes through the block (the
  imply-short test of the backend without deduplication, the passing-wire test of the
  reduced-duplication backend), else the number of drivers. The backend without deduplication
  writes exactly one; the reduced-duplication backend writes exactly one unless the node does
  not pass through and has no driver, when it writes nothing. A multiplexer is written if and
  only if the node does not pass through and has at least two drivers.
\<close>

theorem switch_box_interc_classification:
  "(dump_verilog_switch_box_interc env (info, fp) cur_sb_info t = Inr (info', fp') \<longrightarrow>
      fp' = fp @ [classify_fan_in (emitted_num_drive_rr_nodes_t_sb t)] \<and>
      ((fp' = fp @ [Multiplexer]) =
         (\<not> check_drive_rr_node_imply_short t \<and> 2 \<le> length (drive_rr_nodes (sb_chan_rr_node t)))))
   \<and> (dump_verilog_unique_switch_box_interc env (info, fp) u = Inr (info'', fp'') \<longrightarrow>
      fp'' = fp @ (if \<not> is_sb_node_passing_wire u \<and> drive_rr_nodes (chan_node u) = [] then []
                   else [classify_fan_in (emitted_num_drive_rr_nodes u)]) \<and>
      ((fp'' = fp @ [Multiplexer]) =
         (\<not> is_sb_node_passing_wire u \<and> 2 \<le> length (drive_rr_nodes (chan_node u)))))"
proof (intro conjI impI)
  assume a: "dump_verilog_switch_box_interc env (info, fp) cur_sb_info t = Inr (info', fp')"
  from t_sb_interc_emitted [OF a]
  show e: "fp' = fp @ [classify_fan_in (emitted_num_drive_rr_nodes_t_sb t)]"
    by (simp add: emitted_num_drive_rr_nodes_t_sb_def)
  show "(fp' = fp @ [Multiplexer]) =
         (\<not> check_drive_rr_node_imply_short t \<and> 2 \<le> length (drive_rr_nodes (sb_chan_rr_node t)))"
    unfolding e by (simp add: classify_fan_in_Multiplexer emitted_num_drive_rr_nodes_t_sb_def)
next
  assume a: "dump_verilog_unique_switch_box_interc env (info, fp) u = Inr (info'', fp'')"
  from unique_interc_emitted [OF a]
  show e: "fp'' = fp @ (if \<not> is_sb_node_passing_wire u \<and> drive_rr_nodes (chan_node u) = [] then []
                   else [classify_fan_in (emitted_num_drive_rr_nodes u)])"
    by (simp add: emitted_num_drive_rr_nodes_def)
  show "(fp'' = fp @ [Multiplexer]) =
         (\<not> is_sb_node_passing_wire u \<and> 2 \<le> length (drive_rr_nodes (chan_node u)))"
    unfolding e by (auto simp: classify_fan_in_Multiplexer emitted_num_drive_rr_nodes_def)
qed

theorem switch_box_interc_classification_witness:
  "dump_verilog_switch_box_interc env0 (info0, []) (sb_info_at 0 0 None) (sb_out_track 2)
     = Inr (info0\<lparr>num_mem_bit := 2\<rparr>, [Multiplexer])
   \<and> dump_verilog_unique_switch_box_interc env0 (info0, []) (out_track 1)
     = Inr (info0, [Short_connection])
   \<and> [Multiplexer] = [] @ [classify_fan_in (emitted_num_drive_rr_nodes_t_sb (sb_out_track 2))]
   \<and> 2 \<le> length (drive_rr_nodes (sb_chan_rr_node (sb_out_track 2)))
   \<and> [Short_connection] = [] @ [classify_fan_in (emitted_num_drive_rr_nodes (out_track 1))]"
proof -
  have a: "dump_verilog_switch_box_interc env0 (info0, []) (sb_info_at 0 0 None) (sb_out_track 2)
     = Inr (info0\<lparr>num_mem_bit := 2\<rparr>, [Multiplexer])"
    by code_simp
  have b: "dump_verilog_unique_switch_box_interc env0 (info0, []) (out_track 1)
     = Inr (info0, [Short_connection])"
    by code_simp
  have p: "\<not> (\<not> is_sb_node_passing_wire (out_track 1) \<and> drive_rr_nodes (chan_node (out_track 1)) = [])"
    by code_simp
  note th = switch_box_interc_classification [of env0 info0 "[]" "sb_info_at 0 0 None" "sb_out_track 2"
      "info0\<lparr>num_mem_bit := 2\<rparr>" "[Multiplexer]" "out_track 1" info0 "[Short_connection]"]
  from th a have l1: "[Multiplexer] = [] @ [classify_fan_in (emitted_num_drive_rr_nodes_t_sb (sb_out_track 2))]"
    by blast
  from th a have "([Multiplexer] = [] @ [Multiplexer]) =
         (\<not> check_drive_rr_node_imply_short (sb_out_track 2)
          \<and> 2 \<le> length (drive_rr_nodes (sb_chan_rr_node (sb_out_track 2))))"
    by blast
  then have l2: "2 \<le> length (drive_rr_nodes (sb_chan_rr_node (sb_out_track 2)))"
    by simp
  from th b have "[Short_connection] = [] @
      (if \<not> is_sb_node_passing_wire (out_track 1) \<and> drive_rr_nodes (chan_node (out_track 1)) = [] then []
       else [classify_fan_in (emitted_num_drive_rr_nodes (out_track 1))])"
    by blast
  with p have l3: "[Short_connection] = [] @ [classify_fan_in (emitted_num_drive_rr_nodes (out_track 1))]"
    by (simp only: if_False)
  from a b l1 l2 l3 show ?thesis by (intro conjI)
qed

text \<open>
  Where the claim as stated fails: the reduced-duplication backend writes nothing for an output
  node that has no driver and does not pass through, and it writes a self-loop, not a
  multiplexer, for a passing wire whose node has two drivers.
\<close>

theorem switch_box_interc_classification_counterexample:
  "dump_verilog_unique_switch_box_interc env0 (info0, []) (out_track 0) = Inr (info0, [])
   \<and> length (drive_rr_nodes (chan_node (passing_track 2))) = 2
   \<and> dump_verilog_unique_switch_box_interc env0 (info0, []) (passing_track 2) = Inr (info0, [Self_loop])"
  by code_simp

subsection \<open>The two ways to the fan-in of a node\<close>

text \<open>
  C7, as the code has it. For a sink channel node of a switch block on which the
  opposite-side test of the counting functions and the passing-wire test of the
  reduced-duplication backend give the same answer, the two paths agree on multiplexer or
  not, and the bits the counting function returns are the bits the backend consumes. They
  agree on the case among self-loop, short connection and multiplexer as well, except for a
  node that does not pass through and has no driver: its stored driver list classifies it as
  a self-loop, and the backend writes nothing for it.
\<close>

theorem fan_in_paths_agree:
  assumes "is_sb_node_exist_opposite_side t = is_sb_node_passing_wire t"
    and "count_verilog_switch_box_interc_conf_bits env info t = Inr n"
    and "dump_verilog_unique_switch_box_interc env (info, fp) t = Inr (info', fp')"
  shows "num_mem_bit info' = num_mem_bit info + int n
       \<and> fp' = fp @ (if counted_num_drive_rr_nodes t = 0 \<and> \<not> is_sb_node_passing_wire t then []
                     else [classify_fan_in (counted_num_drive_rr_nodes t)])
       \<and> ((fp' = fp @ [Multiplexer]) = (classify_fan_in (counted_num_drive_rr_nodes t) = Multiplexer))"
proof -
  have same: "counted_num_drive_rr_nodes t = emitted_num_drive_rr_nodes t"
    using assms(1) by (simp add: counted_num_drive_rr_nodes_def emitted_num_drive_rr_nodes_def)
  have bits: "num_mem_bit info' = num_mem_bit info + int n"
    using unique_interc_counter [OF assms(3)] count_interc_conf_bits_Inr [OF assms(2)] same
    by simp
  have skip: "(\<not> is_sb_node_passing_wire t \<and> drive_rr_nodes (chan_node t) = [])
      = (counted_num_drive_rr_nodes t = 0 \<and> \<not> is_sb_node_passing_wire t)"
    using assms(1) by (auto simp: counted_num_drive_rr_nodes_def)
  have e: "fp' = fp @ (if counted_num_drive_rr_nodes t = 0 \<and> \<not> is_sb_node_passing_wire t then []
                     else [classify_fan_in (counted_num_drive_rr_nodes t)])"
    using unique_interc_emitted [OF assms(3)] unfolding skip
    by (simp add: same emitted_num_drive_rr_nodes_def)
  have "(fp' = fp @ [Multiplexer]) = (classify_fan_in (counted_num_drive_rr_nodes t) = Multiplexer)"
    unfolding e by (auto simp: classify_fan_in_def)
  with bits e show ?thesis by (intro conjI)
qed

theorem fan_in_paths_agree_witness:
  "is_sb_node_exist_opposite_side (out_track 3) = is_sb_node_passing_wire (out_track 3)
   \<and> count_verilog_switch_box_interc_conf_bits env0 info0 (out_track 3) = Inr 3
   \<and> dump_verilog_unique_switch_box_interc env0 (info0, []) (out_track 3)
        = Inr (info0\<lparr>num_mem_bit := 3\<rparr>, [Multiplexer])
   \<and> num_mem_bit (info0\<lparr>num_mem_bit := 3\<rparr>) = num_mem_bit info0 + int 3
   \<and> classify_fan_in (counted_num_drive_rr_nodes (out_track 3)) = Multiplexer"
proof -
  have a: "is_sb_node_exist_opposite_side (out_track 3) = is_sb_node_passing_wire (out_track 3)"
    by code_simp
  have b: "count_verilog_switch_box_interc_conf_bits env0 info0 (out_track 3) = Inr 3"
    by code_simp
  have c: "dump_verilog_unique_switch_box_interc env0 (info0, []) (out_track 3)
        = Inr (info0\<lparr>num_mem_bit := 3\<rparr>, [Multiplexer])"
    by code_simp
  note th = fan_in_paths_agree [OF a b c]
  from th have d: "num_mem_bit (info0\<lparr>num_mem_bit := 3\<rparr>) = num_mem_bit info0 + int 3"
    by blast
  from th have "([Multiplexer] = [] @ [Multiplexer])
      = (classify_fan_in (counted_num_drive_rr_nodes (out_track 3)) = Multiplexer)"
    by blast
  then have e: "classify_fan_in (counted_num_drive_rr_nodes (out_track 3)) = Multiplexer"
    by simp
  from a b c d e show ?thesis by (intro conjI)
qed

text \<open>
  Where the claim as stated fails: an output node without drivers that does not pass through
  the block. Both tests say no; the fan-in the counting function works with is 0, a self-loop
  by the classification of fan-ins; the reduced-duplication backend writes nothing.
\<close>

theorem fan_in_paths_agree_counterexample:
  "is_sb_node_exist_opposite_side (out_track 0) = is_sb_node_passing_wire (out_track 0)
   \<and> count_verilog_switch_box_interc_conf_bits env0 info0 (out_track 0) = Inr 0
   \<and> classify_fan_in (counted_num_drive_rr_nodes (out_track 0)) = Self_loop
   \<and> dump_verilog_unique_switch_box_interc env0 (info0, []) (out_track 0) = Inr (info0, [])"
  by code_simp

section \<open>Properties of block counting, emission and allocation\<close>

subsection \<open>Loops that add up\<close>


















subsection \<open>The errors of counting and of emission\<close>













subsection \<open>Emission of a block against its count\<close>



lemma t_sb_subckt_Inr:
  assumes "dump_verilog_routing_switch_box_subckt env st sb c = Inr (st', sb')"
  shows "\<exists>N. count_verilog_switch_box_conf_bits_t_sb env (fst st) sb = Inr N \<and>
             num_mem_bit (fst st') = num_mem_bit (fst st) + int N \<and>
             sb_conf_bits_lsb sb' = num_mem_bit (fst st) \<and>
             sb_conf_bits_msb sb' = num_mem_bit (fst st) + int N"
  using assms
  by (auto simp: dump_verilog_routing_switch_box_subckt_def Let_def
                 get_sram_orgz_info_num_mem_bit_def update_sram_orgz_info_num_mem_bit_def
           split: sum.splits if_splits option.splits)




subsection \<open>Chained address ranges\<close>

lemma chained_le: "chained a rs b \<Longrightarrow> a \<le> b"
proof (induction rs arbitrary: a)
  case Nil
  then show ?case by simp
next
  case (Cons r rs)
  from Cons.prems have "a - 1 \<le> range_conf_bits_msb r"
    and rest: "chained (range_conf_bits_msb r + 1) rs b"
    by simp_all
  with Cons.IH [OF rest] show ?case by simp
qed

lemma chained_append:
  "chained a rs b \<Longrightarrow> chained b ss c \<Longrightarrow> chained a (rs @ ss) c"
  by (induction rs arbitrary: a) auto

lemma chained_union:
  "chained a rs b \<Longrightarrow> (\<Union>r \<in> set rs. conf_range r) = {a ..< b}"
proof (induction rs arbitrary: a)
  case Nil
  then show ?case by simp
next
  case (Cons r rs)
  from Cons.prems have l: "range_conf_bits_lsb r = a" and m: "a - 1 \<le> range_conf_bits_msb r"
    and rest: "chained (range_conf_bits_msb r + 1) rs b"
    by simp_all
  from chained_le [OF rest] have le: "range_conf_bits_msb r + 1 \<le> b" .
  have "(\<Union>r \<in> set (r # rs). conf_range r) = conf_range r \<union> {range_conf_bits_msb r + 1 ..< b}"
    using Cons.IH [OF rest] by simp
  also have "\<dots> = {a ..< b}"
    using l m le by (auto simp: conf_range_def)
  finally show ?case .
qed

lemma chained_disjoint:
  "chained a rs b \<Longrightarrow> i < j \<Longrightarrow> j < length rs \<Longrightarrow> conf_range (rs ! i) \<inter> conf_range (rs ! j) = {}"
proof (induction rs arbitrary: a i j)
  case Nil
  then show ?case by simp
next
  case (Cons r rs)
  from Cons.prems(1) have l: "range_conf_bits_lsb r = a"
    and rest: "chained (range_conf_bits_msb r + 1) rs b"
    by simp_all
  from Cons.prems(2) obtain j' where j: "j = Suc j'" by (cases j) auto
  with Cons.prems(3) have j': "j' < length rs" by simp
  show ?case
  proof (cases i)
    case 0
    have "conf_range (rs ! j') \<subseteq> (\<Union>r \<in> set rs. conf_range r)"
      using nth_mem [OF j'] by blast
    also have "\<dots> = {range_conf_bits_msb r + 1 ..< b}"
      by (rule chained_union [OF rest])
    finally have "conf_range r \<inter> conf_range (rs ! j') = {}"
      by (auto simp: conf_range_def)
    with 0 j show ?thesis by simp
  next
    case (Suc i')
    with Cons.prems(2) j have "i' < j'" by simp
    from Cons.IH [OF rest this j'] Suc j show ?thesis by simp
  qed
qed

lemma chained_pairwise_disjoint:
  assumes "chained a rs b" "i < length rs" "j < length rs" "i \<noteq> j"
  shows "conf_range (rs ! i) \<inter> conf_range (rs ! j) = {}"
proof (cases "i < j")
  case True
  from chained_disjoint [OF assms(1) True assms(3)] show ?thesis .
next
  case False
  with assms(4) have "j < i" by simp
  from chained_disjoint [OF assms(1) this assms(2)] show ?thesis by (simp add: Int_commute)
qed

subsection \<open>Allocation of one block and of all blocks\<close>

lemma update_switch_box_Inr:
  assumes "update_routing_switch_box_conf_bits env rr_sb (info, log) = Inr (info', log')"
  shows "\<exists>N R. count_verilog_switch_box_conf_bits env info rr_sb = Inr N \<and>
           count_verilog_switch_box_reserved_conf_bits env info rr_sb = Inr R \<and>
           log' = log @ [((sb_x rr_sb, sb_y rr_sb),
                          \<lparr>range_num_reserved_conf_bits = int R,
                           range_conf_bits_lsb = num_mem_bit info,
                           range_conf_bits_msb = num_mem_bit info + int N - 1\<rparr>)] \<and>
           info' = info\<lparr>num_mem_bit := num_mem_bit info + int N,
                        num_bl := num_bl info + int N, num_wl := num_wl info + int N\<rparr>"
  using assms
  by (auto simp: update_routing_switch_box_conf_bits_def Let_def
                 get_sram_orgz_info_num_mem_bit_def update_sram_orgz_info_num_mem_bit_def
                 get_sram_orgz_info_num_blwl_def update_sram_orgz_info_num_blwl_def
           split: sum.splits)

lemma switch_box_scan_chained:
  assumes "for_each bs (update_routing_switch_box_conf_bits env) (info, log) = Inr (info', log')"
  shows "\<exists>new. log' = log @ new \<and> map fst new = map (\<lambda>b. (sb_x b, sb_y b)) bs \<and>
           chained (num_mem_bit info) (map snd new) (num_mem_bit info')"
  using assms
proof (induction bs arbitrary: info log)
  case Nil
  then show ?case by simp
next
  case (Cons b bs)
  from Cons.prems obtain s1
    where b: "update_routing_switch_box_conf_bits env b (info, log) = Inr s1"
      and rest: "for_each bs (update_routing_switch_box_conf_bits env) s1 = Inr (info', log')"
    by (rule for_each_Cons_Inr)
  obtain info1 log1 where s1: "s1 = (info1, log1)" by (cases s1)
  from update_switch_box_Inr [OF b [unfolded s1]] obtain N R
    where log1: "log1 = log @ [((sb_x b, sb_y b),
                          \<lparr>range_num_reserved_conf_bits = int R,
                           range_conf_bits_lsb = num_mem_bit info,
                           range_conf_bits_msb = num_mem_bit info + int N - 1\<rparr>)]"
      and info1: "num_mem_bit info1 = num_mem_bit info + int N"
    by auto
  from Cons.IH [OF rest [unfolded s1]] obtain new
    where new: "log' = log1 @ new" "map fst new = map (\<lambda>b. (sb_x b, sb_y b)) bs"
      "chained (num_mem_bit info1) (map snd new) (num_mem_bit info')"
    by blast
  let ?e = "((sb_x b, sb_y b),
                          \<lparr>range_num_reserved_conf_bits = int R,
                           range_conf_bits_lsb = num_mem_bit info,
                           range_conf_bits_msb = num_mem_bit info + int N - 1\<rparr>)"
  have "log' = log @ (?e # new)"
    using new(1) log1 by simp
  moreover have "map fst (?e # new) = map (\<lambda>b. (sb_x b, sb_y b)) (b # bs)"
    using new(2) by simp
  moreover have "chained (num_mem_bit info) (map snd (?e # new)) (num_mem_bit info')"
    using new(3) info1 by simp
  ultimately show ?case by blast
qed


text \<open>
  Claim C1, as amended. (1) \<^verbatim>\<open>update_routing_switch_box_conf_bits\<close>, called when the counter
  holds \<open>T\<close> for a block whose counting function returns \<open>N\<close>, records the range
  \<open>[T, T + N - 1]\<close> for the block's coordinate and advances the memory-bit counter and the
  bit-line and word-line counters by \<open>N\<close>. (2) After the scan of all block instances, each
  instance has one new recorded range, in scan order; the ranges are chained from the value
  of the counter before the scan to its value after, ranges at different positions of the
  scan do not overlap, and their union is the interval from the counter's value before the
  scan (included) to its value after (excluded): a prefix of the address space when the
  counter holds 0 before the scan. (3) The backend without deduplication,
  \<^verbatim>\<open>dump_verilog_routing_switch_box_subckt\<close>, records \<^verbatim>\<open>conf_bits_lsb = T\<close> and
  \<^verbatim>\<open>conf_bits_msb = T + N\<close>, the first address after the block, and leaves the counter at
  \<open>T + N\<close>.
\<close>

theorem conf_bits_ranges_contiguous:
  "(update_routing_switch_box_conf_bits env rr_sb (info, log) = Inr (info1, log1) \<longrightarrow>
      (\<exists>N R. count_verilog_switch_box_conf_bits env info rr_sb = Inr N \<and>
           log1 = log @ [((sb_x rr_sb, sb_y rr_sb),
                          \<lparr>range_num_reserved_conf_bits = R,
                           range_conf_bits_lsb = get_sram_orgz_info_num_mem_bit info,
                           range_conf_bits_msb = get_sram_orgz_info_num_mem_bit info + int N - 1\<rparr>)] \<and>
           get_sram_orgz_info_num_mem_bit info1 = get_sram_orgz_info_num_mem_bit info + int N \<and>
           get_sram_orgz_info_num_blwl info1 =
             (fst (get_sram_orgz_info_num_blwl info) + int N,
              snd (get_sram_orgz_info_num_blwl info) + int N)))
   \<and> (switch_box_instances env device_rr_gsb (info, log) = Inr (info2, log2) \<longrightarrow>
      (\<exists>new. log2 = log @ new \<and>
           map fst new = map (\<lambda>b. (sb_x b, sb_y b)) (gsb_scan device_rr_gsb) \<and>
           chained (get_sram_orgz_info_num_mem_bit info) (map snd new)
             (get_sram_orgz_info_num_mem_bit info2) \<and>
           (\<forall>i < length new. \<forall>j < length new. i \<noteq> j \<longrightarrow>
              conf_range (snd (new ! i)) \<inter> conf_range (snd (new ! j)) = {}) \<and>
           (\<Union>e \<in> set new. conf_range (snd e)) =
              {get_sram_orgz_info_num_mem_bit info ..< get_sram_orgz_info_num_mem_bit info2}))
   \<and> (dump_verilog_routing_switch_box_subckt env (info, fp) cur_sb_info compact
         = Inr ((info3, fp3), sb3) \<longrightarrow>
      (\<exists>N. count_verilog_switch_box_conf_bits_t_sb env info cur_sb_info = Inr N \<and>
           sb_conf_bits_lsb sb3 = get_sram_orgz_info_num_mem_bit info \<and>
           sb_conf_bits_msb sb3 = get_sram_orgz_info_num_mem_bit info + int N \<and>
           get_sram_orgz_info_num_mem_bit info3 = get_sram_orgz_info_num_mem_bit info + int N))"
proof (intro conjI impI)
  assume "update_routing_switch_box_conf_bits env rr_sb (info, log) = Inr (info1, log1)"
  from update_switch_box_Inr [OF this] obtain N R
    where "count_verilog_switch_box_conf_bits env info rr_sb = Inr N"
      and "log1 = log @ [((sb_x rr_sb, sb_y rr_sb),
                          \<lparr>range_num_reserved_conf_bits = int R,
                           range_conf_bits_lsb = num_mem_bit info,
                           range_conf_bits_msb = num_mem_bit info + int N - 1\<rparr>)]"
      and "info1 = info\<lparr>num_mem_bit := num_mem_bit info + int N,
                        num_bl := num_bl info + int N, num_wl := num_wl info + int N\<rparr>"
    by blast
  then show "\<exists>N R. count_verilog_switch_box_conf_bits env info rr_sb = Inr N \<and>
           log1 = log @ [((sb_x rr_sb, sb_y rr_sb),
                          \<lparr>range_num_reserved_conf_bits = R,
                           range_conf_bits_lsb = get_sram_orgz_info_num_mem_bit info,
                           range_conf_bits_msb = get_sram_orgz_info_num_mem_bit info + int N - 1\<rparr>)] \<and>
           get_sram_orgz_info_num_mem_bit info1 = get_sram_orgz_info_num_mem_bit info + int N \<and>
           get_sram_orgz_info_num_blwl info1 =
             (fst (get_sram_orgz_info_num_blwl info) + int N,
              snd (get_sram_orgz_info_num_blwl info) + int N)"
    by (intro exI [where x = N] exI [where x = "int R"])
       (simp add: get_sram_orgz_info_num_mem_bit_def get_sram_orgz_info_num_blwl_def)
next
  assume "switch_box_instances env device_rr_gsb (info, log) = Inr (info2, log2)"
  then have "for_each (gsb_scan device_rr_gsb) (update_routing_switch_box_conf_bits env) (info, log)
      = Inr (info2, log2)"
    by (simp add: switch_box_instances_def)
  from switch_box_scan_chained [OF this] obtain new
    where new: "log2 = log @ new"
      "map fst new = map (\<lambda>b. (sb_x b, sb_y b)) (gsb_scan device_rr_gsb)"
      "chained (num_mem_bit info) (map snd new) (num_mem_bit info2)"
    by blast
  have disj: "conf_range (snd (new ! i)) \<inter> conf_range (snd (new ! j)) = {}"
    if "i < length new" "j < length new" "i \<noteq> j" for i j
    using chained_pairwise_disjoint [OF new(3), of i j] that by simp
  have "(\<Union>r \<in> set (map snd new). conf_range r) = {num_mem_bit info ..< num_mem_bit info2}"
    by (rule chained_union [OF new(3)])
  then have un: "(\<Union>e \<in> set new. conf_range (snd e)) = {num_mem_bit info ..< num_mem_bit info2}"
    by simp
  show "\<exists>new. log2 = log @ new \<and>
           map fst new = map (\<lambda>b. (sb_x b, sb_y b)) (gsb_scan device_rr_gsb) \<and>
           chained (get_sram_orgz_info_num_mem_bit info) (map snd new)
             (get_sram_orgz_info_num_mem_bit info2) \<and>
           (\<forall>i < length new. \<forall>j < length new. i \<noteq> j \<longrightarrow>
              conf_range (snd (new ! i)) \<inter> conf_range (snd (new ! j)) = {}) \<and>
           (\<Union>e \<in> set new. conf_range (snd e)) =
              {get_sram_orgz_info_num_mem_bit info ..< get_sram_orgz_info_num_mem_bit info2}"
    unfolding get_sram_orgz_info_num_mem_bit_def
    using new disj un by (intro exI [where x = new] conjI allI impI)
next
  assume "dump_verilog_routing_switch_box_subckt env (info, fp) cur_sb_info compact
         = Inr ((info3, fp3), sb3)"
  from t_sb_subckt_Inr [OF this]
  show "\<exists>N. count_verilog_switch_box_conf_bits_t_sb env info cur_sb_info = Inr N \<and>
           sb_conf_bits_lsb sb3 = get_sram_orgz_info_num_mem_bit info \<and>
           sb_conf_bits_msb sb3 = get_sram_orgz_info_num_mem_bit info + int N \<and>
           get_sram_orgz_info_num_mem_bit info3 = get_sram_orgz_info_num_mem_bit info + int N"
    by (auto simp: get_sram_orgz_info_num_mem_bit_def)
qed

text \<open>
  The theorem at the example device: two instances of the example block, 5 bits each, from
  counter 0; and at the example block for the backend without deduplication.
\<close>

theorem conf_bits_ranges_contiguous_witness:
  "update_routing_switch_box_conf_bits env0 (rr_sb_at 0 0) (info0, [])
      = Inr (info0\<lparr>num_mem_bit := 5, num_bl := 5, num_wl := 5\<rparr>,
             [((0, 0), \<lparr>range_num_reserved_conf_bits = 3, range_conf_bits_lsb = 0,
                        range_conf_bits_msb = 4\<rparr>)])
   \<and> count_verilog_switch_box_conf_bits env0 info0 (rr_sb_at 0 0) = Inr 5
   \<and> switch_box_instances env0 device0 (info0, [])
      = Inr (info0\<lparr>num_mem_bit := 10, num_bl := 10, num_wl := 10\<rparr>,
             [((0, 0), \<lparr>range_num_reserved_conf_bits = 3, range_conf_bits_lsb = 0,
                        range_conf_bits_msb = 4\<rparr>),
              ((0, 1), \<lparr>range_num_reserved_conf_bits = 3, range_conf_bits_lsb = 5,
                        range_conf_bits_msb = 9\<rparr>)])
   \<and> conf_range \<lparr>range_num_reserved_conf_bits = 3, range_conf_bits_lsb = 0, range_conf_bits_msb = 4\<rparr>
       \<inter> conf_range \<lparr>range_num_reserved_conf_bits = 3, range_conf_bits_lsb = 5, range_conf_bits_msb = 9\<rparr>
       = {}
   \<and> conf_range \<lparr>range_num_reserved_conf_bits = 3, range_conf_bits_lsb = 0, range_conf_bits_msb = 4\<rparr>
       \<union> conf_range \<lparr>range_num_reserved_conf_bits = 3, range_conf_bits_lsb = 5, range_conf_bits_msb = 9\<rparr>
       = {0 ..< 10}
   \<and> sb_conf_bits_msb (snd (projr (dump_verilog_routing_switch_box_subckt env0 (info0, [])
         (sb_info_at 0 0 None) False))) = 5"
proof -
  let ?r1 = "\<lparr>range_num_reserved_conf_bits = 3, range_conf_bits_lsb = 0, range_conf_bits_msb = 4\<rparr>"
  let ?r2 = "\<lparr>range_num_reserved_conf_bits = 3, range_conf_bits_lsb = 5, range_conf_bits_msb = 9\<rparr>"
  let ?i2 = "info0\<lparr>num_mem_bit := 10, num_bl := 10, num_wl := 10\<rparr>"
  have a: "update_routing_switch_box_conf_bits env0 (rr_sb_at 0 0) (info0, [])
      = Inr (info0\<lparr>num_mem_bit := 5, num_bl := 5, num_wl := 5\<rparr>, [((0, 0), ?r1)])"
    by code_simp
  have b: "count_verilog_switch_box_conf_bits env0 info0 (rr_sb_at 0 0) = Inr 5"
    by code_simp
  have c: "switch_box_instances env0 device0 (info0, []) = Inr (?i2, [((0, 0), ?r1), ((0, 1), ?r2)])"
    by code_simp
  have d: "sb_conf_bits_msb (snd (projr (dump_verilog_routing_switch_box_subckt env0 (info0, [])
         (sb_info_at 0 0 None) False))) = 5"
    by code_simp
  have g0: "get_sram_orgz_info_num_mem_bit info0 = 0"
    by (simp add: get_sram_orgz_info_num_mem_bit_def info0_def)
  have g2: "get_sram_orgz_info_num_mem_bit ?i2 = 10"
    by (simp add: get_sram_orgz_info_num_mem_bit_def)
  note th = conf_bits_ranges_contiguous [of env0 "rr_sb_at 0 0" info0 "[]"
      "info0\<lparr>num_mem_bit := 5, num_bl := 5, num_wl := 5\<rparr>" "[((0, 0), ?r1)]"
      device0 ?i2 "[((0, 0), ?r1), ((0, 1), ?r2)]"]
  from th c obtain new
    where new: "[((0 :: nat, 0 :: nat), ?r1), ((0, 1), ?r2)] = [] @ new"
      and disj: "\<forall>i < length new. \<forall>j < length new. i \<noteq> j \<longrightarrow>
              conf_range (snd (new ! i)) \<inter> conf_range (snd (new ! j)) = {}"
      and un: "(\<Union>e \<in> set new. conf_range (snd e)) =
              {get_sram_orgz_info_num_mem_bit info0 ..< get_sram_orgz_info_num_mem_bit ?i2}"
    by blast
  from new have n: "new = [((0, 0), ?r1), ((0, 1), ?r2)]"
    by simp
  from disj have "0 < length new \<longrightarrow> 1 < length new \<longrightarrow> (0 :: nat) \<noteq> 1 \<longrightarrow>
      conf_range (snd (new ! 0)) \<inter> conf_range (snd (new ! 1)) = {}"
    by blast
  then have e: "conf_range ?r1 \<inter> conf_range ?r2 = {}"
    unfolding n by simp
  from un have f: "conf_range ?r1 \<union> conf_range ?r2 = {0 ..< 10}"
    unfolding n g0 g2 by simp
  from a b c e f d show ?thesis by (intro conjI)
qed

text \<open>
  Where the claim as stated fails: the backend without deduplication on the four blocks of
  a 1 x 1 grid, 5 bits each, from counter 0. The recorded \<^verbatim>\<open>conf_bits_msb\<close> of the first
  block is 5, not 0 + 5 - 1, and address 5 lies in the recorded \<open>[lsb, msb]\<close> of the first
  and of the second block.
\<close>

theorem conf_bits_ranges_contiguous_counterexample:
  "count_verilog_switch_box_conf_bits_t_sb env0 info0 (sb_info_at 0 0 None) = Inr 5
   \<and> get_sram_orgz_info_num_mem_bit info0 = 0
   \<and> map (\<lambda>sb. (sb_conf_bits_lsb sb, sb_conf_bits_msb sb))
        (snd (snd (projr (print_verilog_routing_resources_switch_boxes env0 False device0
                            (\<lambda>ix iy. sb_info_at (int ix) (int iy) None) ((info0, []), [], [])))))
      = [(0, 5), (5, 10), (10, 15), (15, 20)]"
  by code_simp

subsection \<open>The unique modules and the counter\<close>

text \<open>
  Claim C8. Under the compact hierarchy, writing the unique modules has no net effect on the
  configuration counter: the state that \<^verbatim>\<open>switch_box_unique_modules\<close> returns, in which the
  loop over the block instances starts, holds the memory-bit, bit-line and word-line counts
  (and the organisation type) that it held when the snapshot was taken; the same for the
  unique connection blocks, whatever their emission does to the counter. So the switch-block
  part is the emission of the unique modules followed by the allocation for every instance
  from the counter of the entry.
\<close>

theorem unique_modules_restore_counter:
  "(switch_box_unique_modules env device_rr_gsb (info, fp) = Inr (info1, fp1) \<longrightarrow> info1 = info)
   \<and> (connection_box_unique_modules dump_cb device_rr_gsb (info, fp) = Inr (info2, fp2) \<longrightarrow>
        info2 = info)
   \<and> (print_verilog_routing_resources_switch_boxes env True device_rr_gsb sb_info
          ((info, fp), log, sbs) = Inr ((info3, fp3), log3, sbs3) \<longrightarrow>
        switch_box_unique_modules env device_rr_gsb (info, fp) = Inr (info, fp3) \<and>
        switch_box_instances env device_rr_gsb (info, log) = Inr (info3, log3) \<and> sbs3 = sbs)
   \<and> (print_verilog_routing_resources_connection_boxes_compact env dump_cb device_rr_gsb
          ((info, fp), cb_log) = Inr ((info4, fp4), cb_log4) \<longrightarrow>
        connection_box_unique_modules dump_cb device_rr_gsb (info, fp) = Inr (info, fp4) \<and>
        connection_box_instances env device_rr_gsb (info, cb_log) = Inr (info4, cb_log4))"
proof -
  have p1: "switch_box_unique_modules env device_rr_gsb (info, fp) = Inr (info1, fp1) \<longrightarrow> info1 = info"
    by (auto simp: switch_box_unique_modules_def Let_def snapshot_sram_orgz_info_def
                   copy_sram_orgz_info_def split: sum.splits)
  have p2: "connection_box_unique_modules dump_cb device_rr_gsb (info, fp) = Inr (info2, fp2) \<longrightarrow>
        info2 = info"
    by (auto simp: connection_box_unique_modules_def Let_def snapshot_sram_orgz_info_def
                   copy_sram_orgz_info_def split: sum.splits)
  have p3: "print_verilog_routing_resources_switch_boxes env True device_rr_gsb sb_info
          ((info, fp), log, sbs) = Inr ((info3, fp3), log3, sbs3) \<longrightarrow>
        switch_box_unique_modules env device_rr_gsb (info, fp) = Inr (info, fp3) \<and>
        switch_box_instances env device_rr_gsb (info, log) = Inr (info3, log3) \<and> sbs3 = sbs"
  proof
    assume a: "print_verilog_routing_resources_switch_boxes env True device_rr_gsb sb_info
          ((info, fp), log, sbs) = Inr ((info3, fp3), log3, sbs3)"
    then obtain est1 where u: "switch_box_unique_modules env device_rr_gsb (info, fp) = Inr est1"
      by (auto simp: print_verilog_routing_resources_switch_boxes_def split: sum.splits)
    then have e: "fst est1 = info"
      by (auto simp: switch_box_unique_modules_def Let_def snapshot_sram_orgz_info_def
                     copy_sram_orgz_info_def split: sum.splits)
    from a u e have i: "switch_box_instances env device_rr_gsb (info, log) = Inr (info3, log3)"
      and f: "snd est1 = fp3" and s: "sbs3 = sbs"
      by (auto simp: print_verilog_routing_resources_switch_boxes_def split: sum.splits)
    from u e f have "switch_box_unique_modules env device_rr_gsb (info, fp) = Inr (info, fp3)"
      by (cases est1) simp
    with i s show "switch_box_unique_modules env device_rr_gsb (info, fp) = Inr (info, fp3) \<and>
        switch_box_instances env device_rr_gsb (info, log) = Inr (info3, log3) \<and> sbs3 = sbs"
      by (intro conjI)
  qed
  have p4: "print_verilog_routing_resources_connection_boxes_compact env dump_cb device_rr_gsb
          ((info, fp), cb_log) = Inr ((info4, fp4), cb_log4) \<longrightarrow>
        connection_box_unique_modules dump_cb device_rr_gsb (info, fp) = Inr (info, fp4) \<and>
        connection_box_instances env device_rr_gsb (info, cb_log) = Inr (info4, cb_log4)"
  proof
    assume a: "print_verilog_routing_resources_connection_boxes_compact env dump_cb device_rr_gsb
          ((info, fp), cb_log) = Inr ((info4, fp4), cb_log4)"
    then obtain est1 where u: "connection_box_unique_modules dump_cb device_rr_gsb (info, fp) = Inr est1"
      by (auto simp: print_verilog_routing_resources_connection_boxes_compact_def split: sum.splits)
    then have e: "fst est1 = info"
      by (auto simp: connection_box_unique_modules_def Let_def snapshot_sram_orgz_info_def
                     copy_sram_orgz_info_def split: sum.splits)
    from a u e have i: "connection_box_instances env device_rr_gsb (info, cb_log) = Inr (info4, cb_log4)"
      and f: "snd est1 = fp4"
      by (auto simp: print_verilog_routing_resources_connection_boxes_compact_def split: sum.splits)
    from u e f have "connection_box_unique_modules dump_cb device_rr_gsb (info, fp) = Inr (info, fp4)"
      by (cases est1) simp
    with i show "connection_box_unique_modules dump_cb device_rr_gsb (info, fp) = Inr (info, fp4) \<and>
        connection_box_instances env device_rr_gsb (info, cb_log) = Inr (info4, cb_log4)"
      by (intro conjI)
  qed
  from p1 p2 p3 p4 show ?thesis by (intro conjI)
qed


text \<open>
  The theorem at the example device: writing the unique switch block alone moves the counter
  from 0 to 5, writing the two unique connection blocks moves it to 14; both parts hand the
  counter of the entry, 0, to the allocation of the instances.
\<close>

theorem unique_modules_restore_counter_witness:
  "dump_verilog_routing_switch_box_unique_subckt env0 (info0, []) (rr_sb_at 0 0)
      = Inr (info0\<lparr>num_mem_bit := 5\<rparr>, [Multiplexer, Self_loop, Multiplexer, Short_connection])
   \<and> switch_box_unique_modules env0 device_cb (info0, [])
      = Inr (info0, [Multiplexer, Self_loop, Multiplexer, Short_connection])
   \<and> connection_box_unique_modules cb_emission_example device_cb (info0, [])
      = Inr (info0, [Multiplexer, Multiplexer])
   \<and> print_verilog_routing_resources_switch_boxes env0 True device_cb
        (\<lambda>ix iy. sb_info_at (int ix) (int iy) None) ((info0, []), [], [])
      = Inr ((info0\<lparr>num_mem_bit := 10, num_bl := 10, num_wl := 10\<rparr>,
              [Multiplexer, Self_loop, Multiplexer, Short_connection]),
             [((0, 0), \<lparr>range_num_reserved_conf_bits = 3, range_conf_bits_lsb = 0,
                        range_conf_bits_msb = 4\<rparr>),
              ((0, 1), \<lparr>range_num_reserved_conf_bits = 3, range_conf_bits_lsb = 5,
                        range_conf_bits_msb = 9\<rparr>)],
             [])
   \<and> switch_box_instances env0 device_cb (info0, [])
      = Inr (info0\<lparr>num_mem_bit := 10, num_bl := 10, num_wl := 10\<rparr>,
             [((0, 0), \<lparr>range_num_reserved_conf_bits = 3, range_conf_bits_lsb = 0,
                        range_conf_bits_msb = 4\<rparr>),
              ((0, 1), \<lparr>range_num_reserved_conf_bits = 3, range_conf_bits_lsb = 5,
                        range_conf_bits_msb = 9\<rparr>)])
   \<and> fst (projr (print_verilog_routing_resources_connection_boxes_compact env0 cb_emission_example
                    device_cb ((info0, []), [])))
      = (info0, [Multiplexer, Multiplexer])
   \<and> fst (projr (connection_box_instances env0 device_cb (info0, []))) = info0"
proof -
  let ?r1 = "\<lparr>range_num_reserved_conf_bits = 3, range_conf_bits_lsb = 0, range_conf_bits_msb = 4\<rparr>"
  let ?r2 = "\<lparr>range_num_reserved_conf_bits = 3, range_conf_bits_lsb = 5, range_conf_bits_msb = 9\<rparr>"
  let ?z = "\<lparr>range_num_reserved_conf_bits = 0, range_conf_bits_lsb = 0, range_conf_bits_msb = - 1\<rparr>"
  let ?i2 = "info0\<lparr>num_mem_bit := 10, num_bl := 10, num_wl := 10\<rparr>"
  let ?fp = "[Multiplexer, Self_loop, Multiplexer, Short_connection]"
  let ?cb_log = "[((0 :: nat, 0 :: nat), CHANX, ?z), ((0, 0), CHANY, ?z),
                  ((0, 1), CHANX, ?z), ((0, 1), CHANY, ?z)]"
  have a: "dump_verilog_routing_switch_box_unique_subckt env0 (info0, []) (rr_sb_at 0 0)
      = Inr (info0\<lparr>num_mem_bit := 5\<rparr>, ?fp)"
    by code_simp
  have b: "switch_box_unique_modules env0 device_cb (info0, []) = Inr (info0, ?fp)"
    by code_simp
  have c: "connection_box_unique_modules cb_emission_example device_cb (info0, [])
      = Inr (info0, [Multiplexer, Multiplexer])"
    by code_simp
  have d: "print_verilog_routing_resources_switch_boxes env0 True device_cb
        (\<lambda>ix iy. sb_info_at (int ix) (int iy) None) ((info0, []), [], [])
      = Inr ((?i2, ?fp), [((0, 0), ?r1), ((0, 1), ?r2)], [])"
    by code_simp
  have e: "print_verilog_routing_resources_connection_boxes_compact env0 cb_emission_example
                    device_cb ((info0, []), [])
      = Inr ((info0, [Multiplexer, Multiplexer]), ?cb_log)"
    by code_simp
  note th = unique_modules_restore_counter [of env0 device_cb info0 "[]" info0 ?fp
      cb_emission_example info0 "[Multiplexer, Multiplexer]"
      "\<lambda>ix iy. sb_info_at (int ix) (int iy) None" "[]" "[]" ?i2 ?fp
      "[((0, 0), ?r1), ((0, 1), ?r2)]" "[]" "[]" info0 "[Multiplexer, Multiplexer]" ?cb_log]
  from th d have f: "switch_box_instances env0 device_cb (info0, [])
      = Inr (?i2, [((0, 0), ?r1), ((0, 1), ?r2)])"
    by blast
  from th e have "connection_box_instances env0 device_cb (info0, []) = Inr (info0, ?cb_log)"
    by blast
  then have g: "fst (projr (connection_box_instances env0 device_cb (info0, []))) = info0"
    by simp
  from e have h: "fst (projr (print_verilog_routing_resources_connection_boxes_compact env0
                    cb_emission_example device_cb ((info0, []), [])))
      = (info0, [Multiplexer, Multiplexer])"
    by simp
  from a b c d f h g show ?thesis by (intro conjI)
qed

subsection \<open>The count of an instance and of its unique module\<close>

lemma count_conf_bits_shape:
  assumes "chan_sides a = chan_sides b" "orgz_type info = orgz_type info'"
  shows "count_verilog_switch_box_conf_bits env info a = count_verilog_switch_box_conf_bits env info' b"
  unfolding count_verilog_switch_box_conf_bits_def count_verilog_switch_box_side_conf_bits_def
    count_verilog_switch_box_interc_conf_bits_def count_interc_bits_def assms
  by (rule refl)

lemma count_conf_bits_t_sb_shape:
  assumes "chan_rr_node a = chan_rr_node b" "orgz_type info = orgz_type info'"
  shows "count_verilog_switch_box_conf_bits_t_sb env info a
       = count_verilog_switch_box_conf_bits_t_sb env info' b"
  unfolding count_verilog_switch_box_conf_bits_t_sb_def
    count_verilog_switch_box_interc_conf_bits_t_sb_def count_interc_bits_def assms
  by (rule refl)

lemma t_sb_subckt_mirror_Inr:
  assumes "dump_verilog_routing_switch_box_subckt env (info, fp) sb True = Inr ((info', fp'), sb')"
    and "mirror sb = Some m"
  shows "\<exists>N. count_verilog_switch_box_conf_bits_t_sb env info sb = Inr N \<and>
             count_verilog_switch_box_conf_bits_t_sb env info m = Inr N \<and>
             fp' = fp \<and> num_mem_bit info' = num_mem_bit info + int N"
  using assms
  by (auto simp: dump_verilog_routing_switch_box_subckt_def Let_def
                 get_sram_orgz_info_num_mem_bit_def update_sram_orgz_info_num_mem_bit_def
           split: sum.splits if_splits)

lemma t_sb_subckt_mirror_mismatch:
  assumes "mirror sb = Some m" "sb_coordinate_ok env sb"
    and "count_verilog_switch_box_conf_bits_t_sb env info sb = Inr n"
    and "count_verilog_switch_box_reserved_conf_bits_t_sb env info sb = Inr r"
    and "count_verilog_switch_box_conf_bits_t_sb env info m = Inr k"
    and "k \<noteq> n"
  shows "dump_verilog_routing_switch_box_subckt env (info, fp) sb True = Inl Assert_mirror_num_conf_bits"
  using assms
  by (simp add: dump_verilog_routing_switch_box_subckt_def Let_def)


text \<open>
  Claim C2, as amended. (1) The count of a block depends on its tracks and on the memory
  organisation type only, not on the counter: an instance with the tracks of its unique
  module gets, in the pass over the instances, the count of the unique module. (2) The one
  comparison of the two counts is in \<^verbatim>\<open>dump_verilog_routing_switch_box_subckt\<close>, for a block
  with a mirror under the compact hierarchy: when it returns, the count of the block and the
  count of its mirror are the same \<open>N\<close>, no netlist is written and the counter has advanced
  by \<open>N\<close>; (3) when the two counts differ, it stops the program at the assertion on the
  mirror's count. (4) The pass over the instances, \<^verbatim>\<open>update_routing_switch_box_conf_bits\<close> for
  every block of the scan, does not read the unique modules, so it compares nothing.
\<close>

theorem mirror_count_comparison:
  "(chan_sides inst = chan_sides unique_mirror \<and> orgz_type info = orgz_type info' \<longrightarrow>
      count_verilog_switch_box_conf_bits env info inst
        = count_verilog_switch_box_conf_bits env info' unique_mirror)
   \<and> (mirror cur_sb_info = Some the_mirror \<and>
       dump_verilog_routing_switch_box_subckt env (info, fp) cur_sb_info True
         = Inr ((info1, fp1), sb1) \<longrightarrow>
       (\<exists>N. count_verilog_switch_box_conf_bits_t_sb env info cur_sb_info = Inr N \<and>
            count_verilog_switch_box_conf_bits_t_sb env info the_mirror = Inr N \<and>
            fp1 = fp \<and>
            get_sram_orgz_info_num_mem_bit info1 = get_sram_orgz_info_num_mem_bit info + int N))
   \<and> (mirror other_sb_info = Some other_mirror \<and> sb_coordinate_ok env other_sb_info \<and>
       count_verilog_switch_box_conf_bits_t_sb env info other_sb_info = Inr n \<and>
       count_verilog_switch_box_reserved_conf_bits_t_sb env info other_sb_info = Inr r \<and>
       count_verilog_switch_box_conf_bits_t_sb env info other_mirror = Inr k \<and> k \<noteq> n \<longrightarrow>
       dump_verilog_routing_switch_box_subckt env (info, fp) other_sb_info True
         = Inl Assert_mirror_num_conf_bits)
   \<and> switch_box_instances env (device_rr_gsb\<lparr>sb_unique_module := unique_modules\<rparr>) st
       = switch_box_instances env device_rr_gsb st"
proof -
  have p1: "chan_sides inst = chan_sides unique_mirror \<and> orgz_type info = orgz_type info' \<longrightarrow>
      count_verilog_switch_box_conf_bits env info inst
        = count_verilog_switch_box_conf_bits env info' unique_mirror"
    using count_conf_bits_shape [of inst unique_mirror info info' env] by blast
  have p2: "mirror cur_sb_info = Some the_mirror \<and>
       dump_verilog_routing_switch_box_subckt env (info, fp) cur_sb_info True
         = Inr ((info1, fp1), sb1) \<longrightarrow>
       (\<exists>N. count_verilog_switch_box_conf_bits_t_sb env info cur_sb_info = Inr N \<and>
            count_verilog_switch_box_conf_bits_t_sb env info the_mirror = Inr N \<and>
            fp1 = fp \<and>
            get_sram_orgz_info_num_mem_bit info1 = get_sram_orgz_info_num_mem_bit info + int N)"
    using t_sb_subckt_mirror_Inr [of env info fp cur_sb_info info1 fp1 sb1 the_mirror]
    by (simp add: get_sram_orgz_info_num_mem_bit_def)
  have p3: "mirror other_sb_info = Some other_mirror \<and> sb_coordinate_ok env other_sb_info \<and>
       count_verilog_switch_box_conf_bits_t_sb env info other_sb_info = Inr n \<and>
       count_verilog_switch_box_reserved_conf_bits_t_sb env info other_sb_info = Inr r \<and>
       count_verilog_switch_box_conf_bits_t_sb env info other_mirror = Inr k \<and> k \<noteq> n \<longrightarrow>
       dump_verilog_routing_switch_box_subckt env (info, fp) other_sb_info True
         = Inl Assert_mirror_num_conf_bits"
    using t_sb_subckt_mirror_mismatch [of other_sb_info other_mirror env info n r k fp] by blast
  have p4: "switch_box_instances env (device_rr_gsb\<lparr>sb_unique_module := unique_modules\<rparr>) st
       = switch_box_instances env device_rr_gsb st"
    by (simp add: switch_box_instances_def gsb_scan_def)
  from p1 p2 p3 p4 show ?thesis by (intro conjI)
qed

text \<open>
  The theorem at the example blocks: an instance at (0, 1) with the tracks of the unique
  module at (0, 0), counted at counter 5 and at counter 0; a block with a mirror of the same
  tracks; and a block of 4 bits whose mirror has 5.
\<close>

theorem mirror_count_comparison_witness:
  "chan_sides (rr_sb_at 0 1) = chan_sides (rr_sb_at 0 0)
   \<and> orgz_type (info0\<lparr>num_mem_bit := 5\<rparr>) = orgz_type info0
   \<and> count_verilog_switch_box_conf_bits env0 (info0\<lparr>num_mem_bit := 5\<rparr>) (rr_sb_at 0 1)
        = count_verilog_switch_box_conf_bits env0 info0 (rr_sb_at 0 0)
   \<and> count_verilog_switch_box_conf_bits env0 info0 (rr_sb_at 0 0) = Inr 5
   \<and> mirror (sb_info_at 0 0 (Some (sb_info_at 1 1 None))) = Some (sb_info_at 1 1 None)
   \<and> dump_verilog_routing_switch_box_subckt env0 (info0, [Self_loop])
        (sb_info_at 0 0 (Some (sb_info_at 1 1 None))) True
        = Inr ((info0\<lparr>num_mem_bit := 5\<rparr>, [Self_loop]),
               T_sb 0 0 (chan_rr_node (sb_info_at 0 0 None)) (Some (sb_info_at 1 1 None)) 3 0 5)
   \<and> count_verilog_switch_box_conf_bits_t_sb env0 info0 (sb_info_at 1 1 None) = Inr 5
   \<and> mirror (sb_info_wide 0 0 (Some (sb_info_at 0 0 None))) = Some (sb_info_at 0 0 None)
   \<and> sb_coordinate_ok env0 (sb_info_wide 0 0 (Some (sb_info_at 0 0 None)))
   \<and> count_verilog_switch_box_conf_bits_t_sb env0 info0
        (sb_info_wide 0 0 (Some (sb_info_at 0 0 None))) = Inr 4
   \<and> count_verilog_switch_box_reserved_conf_bits_t_sb env0 info0
        (sb_info_wide 0 0 (Some (sb_info_at 0 0 None))) = Inr 4
   \<and> count_verilog_switch_box_conf_bits_t_sb env0 info0 (sb_info_at 0 0 None) = Inr 5
   \<and> dump_verilog_routing_switch_box_subckt env0 (info0, [Self_loop])
        (sb_info_wide 0 0 (Some (sb_info_at 0 0 None))) True
        = Inl Assert_mirror_num_conf_bits"
proof -
  let ?sb = "sb_info_at 0 0 (Some (sb_info_at 1 1 None))"
  let ?sb1 = "T_sb 0 0 (chan_rr_node (sb_info_at 0 0 None)) (Some (sb_info_at 1 1 None)) 3 0 5"
  let ?wide = "sb_info_wide 0 0 (Some (sb_info_at 0 0 None))"
  have a1: "chan_sides (rr_sb_at 0 1) = chan_sides (rr_sb_at 0 0)"
    by (simp add: rr_sb_at_def)
  have a2: "orgz_type (info0\<lparr>num_mem_bit := 5\<rparr>) = orgz_type info0"
    by simp
  have b: "count_verilog_switch_box_conf_bits env0 info0 (rr_sb_at 0 0) = Inr 5"
    by code_simp
  have c1: "mirror ?sb = Some (sb_info_at 1 1 None)"
    by (simp add: sb_info_at_def)
  have c2: "dump_verilog_routing_switch_box_subckt env0 (info0, [Self_loop]) ?sb True
        = Inr ((info0\<lparr>num_mem_bit := 5\<rparr>, [Self_loop]), ?sb1)"
    by code_simp
  have d1: "mirror ?wide = Some (sb_info_at 0 0 None)"
    by (simp add: sb_info_wide_def)
  have d2: "sb_coordinate_ok env0 ?wide"
    by code_simp
  have d3: "count_verilog_switch_box_conf_bits_t_sb env0 info0 ?wide = Inr 4"
    by code_simp
  have d4: "count_verilog_switch_box_reserved_conf_bits_t_sb env0 info0 ?wide = Inr 4"
    by code_simp
  have d5: "count_verilog_switch_box_conf_bits_t_sb env0 info0 (sb_info_at 0 0 None) = Inr 5"
    by code_simp
  have d6: "(5 :: nat) \<noteq> 4"
    by simp
  note th = mirror_count_comparison [of "rr_sb_at 0 1" "rr_sb_at 0 0" "info0\<lparr>num_mem_bit := 5\<rparr>"
      info0 env0 ?sb "sb_info_at 1 1 None"]
  from th a1 a2 have e: "count_verilog_switch_box_conf_bits env0 (info0\<lparr>num_mem_bit := 5\<rparr>) (rr_sb_at 0 1)
        = count_verilog_switch_box_conf_bits env0 info0 (rr_sb_at 0 0)"
    by blast
  note th2 = mirror_count_comparison [of _ _ info0 _ env0 ?sb "sb_info_at 1 1 None" "[Self_loop]"
      "info0\<lparr>num_mem_bit := 5\<rparr>" "[Self_loop]" ?sb1 ?wide "sb_info_at 0 0 None" 4 4 5]
  from th2 c1 c2 obtain N
    where "count_verilog_switch_box_conf_bits_t_sb env0 info0 ?sb = Inr N"
      and N: "count_verilog_switch_box_conf_bits_t_sb env0 info0 (sb_info_at 1 1 None) = Inr N"
      and "get_sram_orgz_info_num_mem_bit (info0\<lparr>num_mem_bit := 5\<rparr>)
             = get_sram_orgz_info_num_mem_bit info0 + int N"
    by blast
  then have "N = 5"
    by (simp add: get_sram_orgz_info_num_mem_bit_def info0_def)
  with N have f: "count_verilog_switch_box_conf_bits_t_sb env0 info0 (sb_info_at 1 1 None) = Inr 5"
    by simp
  from th2 d1 d2 d3 d4 d5 d6
  have g: "dump_verilog_routing_switch_box_subckt env0 (info0, [Self_loop]) ?wide True
        = Inl Assert_mirror_num_conf_bits"
    by blast
  from a1 a2 e b c1 c2 f d1 d2 d3 d4 d5 g show ?thesis by (intro conjI)
qed

text \<open>
  Where the claim as stated fails: a device whose only unique module counts 5 bits while its
  only instance counts 4. The switch-block part under the compact hierarchy returns; the
  instance gets the range \<open>[0, 3]\<close> and the counter ends at 4.
\<close>

theorem mirror_count_comparison_counterexample:
  "map chan_sides (sb_unique_module device_mismatch) = [chan_sides (rr_sb_at 0 0)]
   \<and> map chan_sides (gsb_scan device_mismatch) = [chan_sides (rr_sb_wide 0 0)]
   \<and> count_verilog_switch_box_conf_bits env0 info0 (rr_sb_at 0 0) = Inr 5
   \<and> count_verilog_switch_box_conf_bits env0 info0 (rr_sb_wide 0 0) = Inr 4
   \<and> print_verilog_routing_resources_switch_boxes env0 True device_mismatch
        (\<lambda>ix iy. sb_info_at (int ix) (int iy) None) ((info0, []), [], [])
      = Inr ((info0\<lparr>num_mem_bit := 4, num_bl := 4, num_wl := 4\<rparr>,
              [Multiplexer, Self_loop, Multiplexer, Short_connection]),
             [((0, 0), \<lparr>range_num_reserved_conf_bits = 4, range_conf_bits_lsb = 0,
                        range_conf_bits_msb = 3\<rparr>)],
             [])"
  by code_simp

end
